theory Spec2Isabelle
  imports Complex_Main
begin

section \<open>JavaScript values\<close>

text \<open>
  The handlers of \<^verbatim>\<open>src/index.js\<close> work on three kinds of data: the arguments of a tool
  invocation, the value of one environment variable, and the JSON documents the
  provider answers with. All of them are JavaScript values, and the code tests them
  with \<^verbatim>\<open>!v\<close>, reads their properties and splices them into template literals, so the
  model has one type of values with the language's coercions written out.

  A number is an IEEE double. A finite double is held as the real number it denotes (the two
  zeros are one value: the program never divides, so it cannot tell them apart); the
  results of \<^verbatim>\<open>*\<close> and \<^verbatim>\<open>+\<close> are rounded to the nearest double, ties to even.

  A string is a HOL string, one \<^typ>\<open>char\<close> for each UTF-16 code unit, so the strings of
  the model are those of code units below 256. Reading numbers is exact on them (the
  white space of the language in that range is tab, LF, VT, FF, CR, space and U+00A0).
  \<^verbatim>\<open>toUpperCase\<close> is modelled on the letters a to z, as ticker symbols and currency
  codes have them; code units from 0x80 up are left as they are, where the language maps
  some (sharp s becomes SS): this touches only the upper-cased symbol inside the text of
  a result.

  An object is the list of its own properties, each key once, in the order
  \<^verbatim>\<open>Object.keys\<close> enumerates them, which for keys that are not array indices (the
  provider's timestamps and field names) is the order of the JSON text.
\<close>

datatype jsnum = Fin real | NaN | PosInf | NegInf

datatype jsval =
    Undefined
  | Null
  | Bool bool
  | Num jsnum
  | Str string
  | Arr "jsval list"
  | Obj "(string \<times> jsval) list"

subsection \<open>Doubles\<close>

definition pow2 :: "int \<Rightarrow> real" where
  "pow2 e = (if 0 \<le> e then 2 ^ nat e else 1 / 2 ^ nat (- e))"

definition pow10 :: "int \<Rightarrow> real" where
  "pow10 e = (if 0 \<le> e then 10 ^ nat e else 1 / 10 ^ nat (- e))"

text \<open>The number of digits of \<open>n\<close> in base \<open>b\<close> (0 for 0).\<close>

fun ndigits :: "nat \<Rightarrow> nat \<Rightarrow> nat" where
  "ndigits b n = (if n = 0 \<or> b < 2 then 0 else Suc (ndigits b (n div b)))"

declare ndigits.simps [simp del]

text \<open>
  For \<open>q > 0\<close>: the exponent \<open>e\<close> with \<open>b ^ e \<le> q < b ^ (e + 1)\<close>. From 1 on it is
  read off the integer part of \<open>q\<close>, below 1 off the reciprocal.
\<close>

definition floor_log :: "nat \<Rightarrow> real \<Rightarrow> int" where
  "floor_log b q =
     (if 1 \<le> q then int (ndigits b (nat \<lfloor>q\<rfloor>)) - 1
      else - int (ndigits b (nat (\<lceil>1 / q\<rceil> - 1))))"

definition round_half_even :: "real \<Rightarrow> int" where
  "round_half_even q =
     (let f = \<lfloor>q\<rfloor>; d = q - of_int f
      in if d < 1 / 2 then f else if 1 / 2 < d then f + 1
         else if even f then f else f + 1)"

text \<open>
  The double nearest to a rational: 53 significant bits, exponents from -1022 (below that
  the spacing stays \<open>2 ^ -1074\<close>, the subnormal range), and infinity from \<open>2 ^ 1024\<close> on.
\<close>

definition round_double :: "real \<Rightarrow> jsnum" where
  "round_double q =
     (if q = 0 then Fin 0
      else
        let e = max (floor_log 2 \<bar>q\<bar>) (- 1022);
            u = pow2 (e - 52);
            r = of_int (round_half_even (\<bar>q\<bar> / u)) * u
        in if pow2 1024 \<le> r then (if q < 0 then NegInf else PosInf)
           else Fin (if q < 0 then - r else r))"

text \<open>\<^verbatim>\<open>a * b\<close> and \<^verbatim>\<open>a + b\<close> on numbers.\<close>

fun js_mul :: "jsnum \<Rightarrow> jsnum \<Rightarrow> jsnum" where
  "js_mul NaN _ = NaN"
| "js_mul _ NaN = NaN"
| "js_mul (Fin a) (Fin b) = round_double (a * b)"
| "js_mul (Fin a) PosInf = (if a = 0 then NaN else if 0 < a then PosInf else NegInf)"
| "js_mul (Fin a) NegInf = (if a = 0 then NaN else if 0 < a then NegInf else PosInf)"
| "js_mul PosInf (Fin b) = (if b = 0 then NaN else if 0 < b then PosInf else NegInf)"
| "js_mul NegInf (Fin b) = (if b = 0 then NaN else if 0 < b then NegInf else PosInf)"
| "js_mul PosInf PosInf = PosInf"
| "js_mul PosInf NegInf = NegInf"
| "js_mul NegInf PosInf = NegInf"
| "js_mul NegInf NegInf = PosInf"

fun js_add :: "jsnum \<Rightarrow> jsnum \<Rightarrow> jsnum" where
  "js_add NaN _ = NaN"
| "js_add _ NaN = NaN"
| "js_add (Fin a) (Fin b) = round_double (a + b)"
| "js_add (Fin a) PosInf = PosInf"
| "js_add (Fin a) NegInf = NegInf"
| "js_add PosInf (Fin b) = PosInf"
| "js_add NegInf (Fin b) = NegInf"
| "js_add PosInf PosInf = PosInf"
| "js_add PosInf NegInf = NaN"
| "js_add NegInf PosInf = NaN"
| "js_add NegInf NegInf = NegInf"

subsection \<open>Printing numbers\<close>

definition digit_char :: "nat \<Rightarrow> char" where
  "digit_char d = ''0123456789'' ! d"

fun show_nat :: "nat \<Rightarrow> string" where
  "show_nat n = (if n < 10 then [digit_char n] else show_nat (n div 10) @ [digit_char (n mod 10)])"

declare show_nat.simps [simp del]

text \<open>
  The shortest decimal that reads back as the same double (\<^verbatim>\<open>Number::toString\<close>): for
  \<open>k = 1, 2, ...\<close> significant digits, the two \<open>k\<close>-digit decimals around \<open>x\<close> are tried
  and the closer one that rounds to \<open>x\<close> is taken. The result is the digits \<open>s\<close> and the
  position \<open>n\<close> of the decimal point, \<open>x\<close> being about \<open>s * 10 ^ (n - k)\<close>.
\<close>

definition digits_at :: "real \<Rightarrow> int \<Rightarrow> nat \<Rightarrow> (nat \<times> int) option" where
  "digits_at x n k =
     (let p = pow10 (n - int k);
          lo = nat \<lfloor>x / p\<rfloor>;
          hi = lo + 1;
          ok_lo = (round_double (of_nat lo * p) = Fin x);
          ok_hi = (round_double (of_nat hi * p) = Fin x);
          near_lo = (x - of_nat lo * p < of_nat hi * p - x
                     \<or> (x - of_nat lo * p = of_nat hi * p - x \<and> even lo));
          s = (if ok_lo \<and> (near_lo \<or> \<not> ok_hi) then Some lo
               else if ok_hi then Some hi else None)
      in case s of
           None \<Rightarrow> None
         | Some d \<Rightarrow> if d = 10 ^ k then Some (10 ^ (k - 1), n + 1) else Some (d, n))"

fun first_digits :: "real \<Rightarrow> int \<Rightarrow> nat list \<Rightarrow> (nat \<times> nat \<times> int) option" where
  "first_digits x n [] = None"
| "first_digits x n (k # ks) =
     (case digits_at x n k of
        Some (s, n') \<Rightarrow> Some (k, s, n')
      | None \<Rightarrow> first_digits x n ks)"

definition shortest_digits :: "real \<Rightarrow> nat \<times> nat \<times> int" where
  "shortest_digits x =
     (let n = floor_log 10 x + 1
      in case first_digits x n [1, 2, 3, 4, 5, 6, 7, 8, 9, 10, 11, 12, 13, 14, 15, 16, 17] of
           Some r \<Rightarrow> r
         | None \<Rightarrow> (17, nat \<lfloor>x / pow10 (n - 17)\<rfloor>, n))"

text \<open>The layout of the digits: plain, with a point, with leading zeros, or with an exponent.\<close>

definition layout_digits :: "nat \<Rightarrow> string \<Rightarrow> int \<Rightarrow> string" where
  "layout_digits k ds n =
     (if int k \<le> n \<and> n \<le> 21 then ds @ replicate (nat (n - int k)) (CHR ''0'')
      else if 0 < n \<and> n \<le> 21 then take (nat n) ds @ ''.'' @ drop (nat n) ds
      else if - 6 < n \<and> n \<le> 0 then ''0.'' @ replicate (nat (- n)) (CHR ''0'') @ ds
      else
        let ex = (if 0 \<le> n - 1 then ''+'' else ''-'') @ show_nat (nat \<bar>n - 1\<bar>)
        in if k = 1 then ds @ ''e'' @ ex
           else take 1 ds @ ''.'' @ drop 1 ds @ ''e'' @ ex)"

definition show_pos :: "real \<Rightarrow> string" where
  "show_pos x = (case shortest_digits x of (k, s, n) \<Rightarrow> layout_digits k (show_nat s) n)"

fun num_to_string :: "jsnum \<Rightarrow> string" where
  "num_to_string NaN = ''NaN''"
| "num_to_string PosInf = ''Infinity''"
| "num_to_string NegInf = ''-Infinity''"
| "num_to_string (Fin x) =
     (if x = 0 then ''0'' else if x < 0 then ''-'' @ show_pos (- x) else show_pos x)"

text \<open>
  \<^verbatim>\<open>x.toFixed(2)\<close>: the integer nearest to \<open>100 * x\<close> (the larger one of two), written with
  at least three digits and a point before the last two; numbers from \<open>10 ^ 21\<close> on and
  the non-finite ones print as \<^verbatim>\<open>String(x)\<close> does.
\<close>

definition fixed2_pos :: "real \<Rightarrow> string" where
  "fixed2_pos x =
     (if 10 ^ 21 \<le> x then show_pos x
      else
        let m = show_nat (nat \<lfloor>x * 100 + 1 / 2\<rfloor>);
            m' = replicate (3 - length m) (CHR ''0'') @ m
        in take (length m' - 2) m' @ ''.'' @ drop (length m' - 2) m')"

fun toFixed2 :: "jsnum \<Rightarrow> string" where
  "toFixed2 (Fin x) = (if x < 0 then ''-'' @ fixed2_pos (- x) else fixed2_pos x)"
| "toFixed2 n = num_to_string n"

subsection \<open>Reading numbers\<close>

definition is_digit :: "char \<Rightarrow> bool" where
  "is_digit c = (c \<in> set ''0123456789'')"

definition is_ws :: "char \<Rightarrow> bool" where
  "is_ws c = (c \<in> set [CHR 0x09, CHR 0x0A, CHR 0x0B, CHR 0x0C, CHR 0x0D, CHR '' '', CHR 0xA0])"

fun index_in :: "char \<Rightarrow> string \<Rightarrow> nat option" where
  "index_in c [] = None"
| "index_in c (d # ds) = (if c = d then Some 0 else map_option Suc (index_in c ds))"

text \<open>The value of a digit in a radix up to 16 (either case), if it is one.\<close>

definition digit_val :: "nat \<Rightarrow> char \<Rightarrow> nat option" where
  "digit_val radix c =
     (case index_in c ''0123456789abcdef'' of
        Some d \<Rightarrow> if d < radix then Some d else None
      | None \<Rightarrow>
          (case index_in c ''ABCDEF'' of
             Some d \<Rightarrow> if d + 10 < radix then Some (d + 10) else None
           | None \<Rightarrow> None))"

fun radix_val :: "nat \<Rightarrow> nat \<Rightarrow> string \<Rightarrow> nat option" where
  "radix_val radix acc [] = Some acc"
| "radix_val radix acc (c # cs) =
     (case digit_val radix c of
        None \<Rightarrow> None
      | Some d \<Rightarrow> radix_val radix (acc * radix + d) cs)"

definition digits_val :: "string \<Rightarrow> nat" where
  "digits_val ds = (case radix_val 10 0 ds of Some n \<Rightarrow> n | None \<Rightarrow> 0)"

text \<open>An exponent part \<^verbatim>\<open>e\<close>, \<^verbatim>\<open>e+\<close> or \<^verbatim>\<open>e-\<close> with digits, if the text starts with one.\<close>

definition scan_exponent :: "string \<Rightarrow> int \<times> string" where
  "scan_exponent s =
     (case s of
        [] \<Rightarrow> (0, s)
      | c # t \<Rightarrow>
          if c = CHR ''e'' \<or> c = CHR ''E'' then
            (let neg = (case t of [] \<Rightarrow> False | d # _ \<Rightarrow> d = CHR ''-'');
                 u = (case t of [] \<Rightarrow> t | d # v \<Rightarrow> if d = CHR ''-'' \<or> d = CHR ''+'' then v else t);
                 ds = takeWhile is_digit u
             in if ds = [] then (0, s)
                else (if neg then - int (digits_val ds) else int (digits_val ds),
                      dropWhile is_digit u))
          else (0, s))"

text \<open>
  The longest prefix that is an unsigned decimal literal (\<^verbatim>\<open>Infinity\<close>, \<^verbatim>\<open>12\<close>, \<^verbatim>\<open>12.\<close>,
  \<^verbatim>\<open>12.5\<close>, \<^verbatim>\<open>.5\<close>, each with an optional exponent), its value and the text after it.
\<close>

definition scan_unsigned :: "string \<Rightarrow> (jsnum \<times> string) option" where
  "scan_unsigned s =
     (if take 8 s = ''Infinity'' then Some (PosInf, drop 8 s)
      else
        let ip = takeWhile is_digit s;
            r1 = dropWhile is_digit s;
            dot = (case r1 of [] \<Rightarrow> False | c # _ \<Rightarrow> c = CHR ''.'');
            fp = (if dot then takeWhile is_digit (tl r1) else []);
            r2 = (if dot then dropWhile is_digit (tl r1) else r1)
        in if ip = [] \<and> fp = [] then None
           else
             (case scan_exponent r2 of
                (ex, r3) \<Rightarrow>
                  Some (round_double (of_nat (digits_val (ip @ fp)) * pow10 (ex - int (length fp))),
                        r3)))"

fun js_neg :: "jsnum \<Rightarrow> jsnum" where
  "js_neg (Fin x) = Fin (- x)"
| "js_neg NaN = NaN"
| "js_neg PosInf = NegInf"
| "js_neg NegInf = PosInf"

definition scan_signed :: "string \<Rightarrow> (jsnum \<times> string) option" where
  "scan_signed s =
     (case s of
        [] \<Rightarrow> None
      | c # t \<Rightarrow>
          if c = CHR ''-'' then map_option (\<lambda>(v, r). (js_neg v, r)) (scan_unsigned t)
          else if c = CHR ''+'' then scan_unsigned t
          else scan_unsigned s)"

text \<open>\<^verbatim>\<open>parseFloat\<close> on a string: leading white space is skipped, what follows the number is ignored.\<close>

definition parseFloat_str :: "string \<Rightarrow> jsnum" where
  "parseFloat_str s = (case scan_signed (dropWhile is_ws s) of None \<Rightarrow> NaN | Some (v, _) \<Rightarrow> v)"

text \<open>
  \<^verbatim>\<open>Number(s)\<close> on a string: white space is trimmed at both ends, the empty text is 0, and
  the whole rest has to be one literal (decimal, or \<^verbatim>\<open>0x\<close>, \<^verbatim>\<open>0o\<close>, \<^verbatim>\<open>0b\<close> with digits).
\<close>

definition trim :: "string \<Rightarrow> string" where
  "trim s = rev (dropWhile is_ws (rev (dropWhile is_ws s)))"

definition radix_literal :: "string \<Rightarrow> (nat \<times> string) option" where
  "radix_literal t =
     (if take 2 t = ''0x'' \<or> take 2 t = ''0X'' then Some (16, drop 2 t)
      else if take 2 t = ''0o'' \<or> take 2 t = ''0O'' then Some (8, drop 2 t)
      else if take 2 t = ''0b'' \<or> take 2 t = ''0B'' then Some (2, drop 2 t)
      else None)"

definition str_to_number :: "string \<Rightarrow> jsnum" where
  "str_to_number s =
     (let t = trim s
      in if t = [] then Fin 0
         else
           (case radix_literal t of
              Some (radix, ds) \<Rightarrow>
                (if ds = [] then NaN
                 else case radix_val radix 0 ds of
                        None \<Rightarrow> NaN
                      | Some n \<Rightarrow> round_double (of_nat n))
            | None \<Rightarrow>
                (case scan_signed t of
                   Some (v, []) \<Rightarrow> v
                 | _ \<Rightarrow> NaN)))"

subsection \<open>Coercions and property access\<close>

text \<open>\<^verbatim>\<open>!v\<close> is \<open>\<not> truthy v\<close>.\<close>

fun truthy :: "jsval \<Rightarrow> bool" where
  "truthy Undefined = False"
| "truthy Null = False"
| "truthy (Bool b) = b"
| "truthy (Num (Fin x)) = (x \<noteq> 0)"
| "truthy (Num NaN) = False"
| "truthy (Num _) = True"
| "truthy (Str s) = (s \<noteq> [])"
| "truthy (Arr _) = True"
| "truthy (Obj _) = True"

fun join :: "string \<Rightarrow> string list \<Rightarrow> string" where
  "join sep [] = []"
| "join sep [x] = x"
| "join sep (x # y # ys) = x @ sep @ join sep (y # ys)"

text \<open>
  What a template literal splices in for \<^verbatim>\<open>${v}\<close>. An array prints its elements separated
  by commas, \<^verbatim>\<open>null\<close> and \<^verbatim>\<open>undefined\<close> among them as nothing.
\<close>

fun to_string :: "jsval \<Rightarrow> string" where
  "to_string Undefined = ''undefined''"
| "to_string Null = ''null''"
| "to_string (Bool b) = (if b then ''true'' else ''false'')"
| "to_string (Num n) = num_to_string n"
| "to_string (Str s) = s"
| "to_string (Arr xs) =
     join '','' (map (\<lambda>v. if v = Undefined \<or> v = Null then [] else to_string v) xs)"
| "to_string (Obj _) = ''[object Object]''"

text \<open>\<^verbatim>\<open>Number(v)\<close>, which \<^verbatim>\<open>isNaN(v)\<close> and \<^verbatim>\<open>*\<close> apply to their operands.\<close>

fun to_number :: "jsval \<Rightarrow> jsnum" where
  "to_number Undefined = NaN"
| "to_number Null = Fin 0"
| "to_number (Bool b) = (if b then Fin 1 else Fin 0)"
| "to_number (Num n) = n"
| "to_number (Str s) = str_to_number s"
| "to_number (Arr xs) = str_to_number (to_string (Arr xs))"
| "to_number (Obj _) = NaN"

definition isNaN :: "jsval \<Rightarrow> bool" where
  "isNaN v = (to_number v = NaN)"

definition parseFloat :: "jsval \<Rightarrow> jsnum" where
  "parseFloat v = parseFloat_str (to_string v)"

datatype exn =
    Error string  \<comment> \<open>\<^verbatim>\<open>throw new Error(message)\<close>\<close>
  | TypeError  \<comment> \<open>a property read on \<^verbatim>\<open>null\<close> or \<^verbatim>\<open>undefined\<close>, a call of what is no function\<close>
  | FetchError  \<comment> \<open>\<^verbatim>\<open>fetch\<close> rejected: no response at all\<close>
  | JsonError  \<comment> \<open>\<^verbatim>\<open>res.json()\<close> rejected: the body is not JSON\<close>

text \<open>
  \<^verbatim>\<open>v[k]\<close> for a value that is neither \<^verbatim>\<open>null\<close> nor \<^verbatim>\<open>undefined\<close>, for the property names
  this program reads (the provider's field names, \<^verbatim>\<open>length\<close>, and keys taken from
  \<^verbatim>\<open>Object.keys\<close>): an own property, an element or a character by its index, the
  length of an array or a string, and \<^verbatim>\<open>undefined\<close> otherwise.
\<close>

definition index_of_key :: "string \<Rightarrow> nat \<Rightarrow> nat option" where
  "index_of_key k len = find (\<lambda>i. show_nat i = k) [0..<len]"

fun js_prop :: "jsval \<Rightarrow> string \<Rightarrow> jsval" where
  "js_prop (Obj kvs) k = (case map_of kvs k of None \<Rightarrow> Undefined | Some v \<Rightarrow> v)"
| "js_prop (Arr xs) k =
     (if k = ''length'' then Num (Fin (of_nat (length xs)))
      else case index_of_key k (length xs) of None \<Rightarrow> Undefined | Some i \<Rightarrow> xs ! i)"
| "js_prop (Str s) k =
     (if k = ''length'' then Num (Fin (of_nat (length s)))
      else case index_of_key k (length s) of None \<Rightarrow> Undefined | Some i \<Rightarrow> Str [s ! i])"
| "js_prop _ k = Undefined"

definition nullish :: "jsval \<Rightarrow> bool" where
  "nullish v = (v = Undefined \<or> v = Null)"

definition get_prop :: "jsval \<Rightarrow> string \<Rightarrow> exn + jsval" where
  "get_prop v k = (if nullish v then Inl TypeError else Inr (js_prop v k))"

text \<open>\<^verbatim>\<open>Object.keys(v)\<close>.\<close>

fun own_keys :: "jsval \<Rightarrow> exn + string list" where
  "own_keys (Obj kvs) = Inr (map fst kvs)"
| "own_keys (Arr xs) = Inr (map show_nat [0..<length xs])"
| "own_keys (Str s) = Inr (map show_nat [0..<length s])"
| "own_keys Undefined = Inl TypeError"
| "own_keys Null = Inl TypeError"
| "own_keys _ = Inr []"

text \<open>String methods; on a value that is no string the call raises.\<close>

definition upper_char :: "char \<Rightarrow> char" where
  "upper_char c =
     (case index_in c ''abcdefghijklmnopqrstuvwxyz'' of
        None \<Rightarrow> c
      | Some i \<Rightarrow> ''ABCDEFGHIJKLMNOPQRSTUVWXYZ'' ! i)"

fun toUpperCase :: "jsval \<Rightarrow> exn + string" where
  "toUpperCase (Str s) = Inr (map upper_char s)"
| "toUpperCase _ = Inl TypeError"

fun substring0 :: "jsval \<Rightarrow> nat \<Rightarrow> exn + string" where
  "substring0 (Str s) n = Inr (take n s)"
| "substring0 _ n = Inl TypeError"

text \<open>
  \<^verbatim>\<open>v.slice(0, 3)\<close> followed by an array method (\<^verbatim>\<open>map\<close>): only an array has both, so on
  anything else one of the two calls raises.
\<close>

fun slice3 :: "jsval \<Rightarrow> exn + jsval list" where
  "slice3 (Arr xs) = Inr (take 3 xs)"
| "slice3 _ = Inl TypeError"

text \<open>Running a function that may raise over a list, left to right, stopping at the first raise.\<close>

fun map_exn :: "('a \<Rightarrow> exn + 'b) \<Rightarrow> 'a list \<Rightarrow> exn + 'b list" where
  "map_exn f [] = Inr []"
| "map_exn f (x # xs) =
     (case f x of
        Inl e \<Rightarrow> Inl e
      | Inr y \<Rightarrow> (case map_exn f xs of Inl e \<Rightarrow> Inl e | Inr ys \<Rightarrow> Inr (y # ys)))"

section \<open>The environment: the API key and the network\<close>

text \<open>
  \<^verbatim>\<open>process.env.ALPHA_VANTAGE_API_KEY\<close> is a string or \<^verbatim>\<open>undefined\<close>: a \<^typ>\<open>string option\<close>.
  \<^verbatim>\<open>!apiKey\<close> holds when it is unset or empty.

  \<^verbatim>\<open>await fetch(url)\<close> either rejects (no response: the exception leaves the handler, which
  has no \<^verbatim>\<open>try\<close>) or resolves to a response with its \<^verbatim>\<open>ok\<close> flag; \<^verbatim>\<open>await res.json()\<close>
  either rejects or yields the parsed body. The network is a function from the requests
  an invocation has issued so far (the current one last) to the outcome of the current
  one, so an answer may depend on everything that was asked before. Each handler returns,
  with its result, the list of the URLs it requested, in order.
\<close>

definition key_missing :: "string option \<Rightarrow> bool" where
  "key_missing apiKey = (case apiKey of None \<Rightarrow> True | Some k \<Rightarrow> k = [])"

definition key_text :: "string option \<Rightarrow> string" where
  "key_text apiKey = (case apiKey of None \<Rightarrow> ''undefined'' | Some k \<Rightarrow> k)"

datatype response = Response (ok: bool) (json: "jsval option")

datatype fetch_outcome = Rejected | Resolved response

type_synonym network = "string list \<Rightarrow> fetch_outcome"

record content_item =
  ctype :: string
  ctext :: string

record tool_result =
  content :: "content_item list"

type_synonym handler_result = "(exn + tool_result) \<times> string list"

definition text_result :: "string \<Rightarrow> tool_result" where
  "text_result t = \<lparr>content = [\<lparr>ctype = ''text'', ctext = t\<rparr>]\<rparr>"

definition nl :: string where
  "nl = [CHR 0x0A]"

definition endpoint :: string where
  "endpoint = ''https://www.alphavantage.co/query?function=''"

text \<open>The request URLs, as the template literals of lines 23, 43, 68, 91, 116, 146 and 178 build them.\<close>

definition quote_url :: "jsval \<Rightarrow> string \<Rightarrow> string" where
  "quote_url symbol key = endpoint @ ''GLOBAL_QUOTE&symbol='' @ to_string symbol @ ''&apikey='' @ key"

definition news_url :: "jsval \<Rightarrow> string \<Rightarrow> string" where
  "news_url symbol key = endpoint @ ''NEWS_SENTIMENT&tickers='' @ to_string symbol @ ''&apikey='' @ key"

definition overview_url :: "jsval \<Rightarrow> string \<Rightarrow> string" where
  "overview_url symbol key = endpoint @ ''OVERVIEW&symbol='' @ to_string symbol @ ''&apikey='' @ key"

definition dividend_url :: "jsval \<Rightarrow> string \<Rightarrow> string" where
  "dividend_url symbol key =
     endpoint @ ''DIVIDEND_HISTORY&symbol='' @ to_string symbol @ ''&apikey='' @ key"

definition intraday_url :: "jsval \<Rightarrow> string \<Rightarrow> string" where
  "intraday_url symbol key =
     endpoint @ ''TIME_SERIES_INTRADAY&symbol='' @ to_string symbol @ ''&interval=5min&apikey='' @ key"

definition currency_url :: "jsval \<Rightarrow> jsval \<Rightarrow> string \<Rightarrow> string" where
  "currency_url from_currency to_currency key =
     endpoint @ ''CURRENCY_EXCHANGE_RATE&from_currency='' @ to_string from_currency @
     ''&to_currency='' @ to_string to_currency @ ''&apikey='' @ key"

text \<open>
  The three lines every single-request handler shares:
  \<^verbatim>\<open>const res = await fetch(url); if (!res.ok) throw new Error(msg); const data = await res.json();\<close>
\<close>

definition fetch_json :: "network \<Rightarrow> string \<Rightarrow> string \<Rightarrow> (exn + jsval) \<times> string list" where
  "fetch_json net url msg =
     (case net [url] of
        Rejected \<Rightarrow> (Inl FetchError, [url])
      | Resolved res \<Rightarrow>
          if \<not> ok res then (Inl (Error msg), [url])
          else (case json res of
                  None \<Rightarrow> (Inl JsonError, [url])
                | Some data \<Rightarrow> (Inr data, [url])))"

definition then_format :: "(exn + jsval) \<times> string list \<Rightarrow> (jsval \<Rightarrow> exn + tool_result) \<Rightarrow> handler_result" where
  "then_format r f = (case r of (Inl e, reqs) \<Rightarrow> (Inl e, reqs) | (Inr data, reqs) \<Rightarrow> (f data, reqs))"

section \<open>The handlers\<close>

subsection \<open>getStockPrice\<close>

definition getStockPrice_data :: "jsval \<Rightarrow> jsval \<Rightarrow> exn + tool_result" where
  "getStockPrice_data symbol data =
     (case get_prop data ''Global Quote'' of
        Inl e \<Rightarrow> Inl e
      | Inr quote \<Rightarrow>
          if \<not> truthy quote \<or> \<not> truthy (js_prop quote ''05. price'')
          then Inl (Error (''No price data found for '' @ to_string symbol))
          else
            (case toUpperCase symbol of
               Inl e \<Rightarrow> Inl e
             | Inr up \<Rightarrow>
                 Inr (text_result
                   (''Stock: '' @ up @ nl @
                    ''Price: $'' @ to_string (js_prop quote ''05. price'') @ nl @
                    ''Change: '' @ to_string (js_prop quote ''09. change'') @
                    '' ('' @ to_string (js_prop quote ''10. change percent'') @ '')''))))"

definition getStockPrice :: "string option \<Rightarrow> network \<Rightarrow> jsval \<Rightarrow> handler_result" where
  "getStockPrice apiKey net symbol =
     (if key_missing apiKey
      then (Inl (Error ''Error: Missing ALPHA_VANTAGE_API_KEY environment variable.''), [])
      else then_format
             (fetch_json net
                (quote_url symbol (key_text apiKey))
                (''Failed to get stock price for '' @ to_string symbol))
             (getStockPrice_data symbol))"

subsection \<open>getStockNews\<close>

text \<open>One entry of \<^verbatim>\<open>.map((a, i) => ...)\<close>; \<open>i + 1\<close> is 1, 2 or 3.\<close>

definition news_line :: "nat \<times> jsval \<Rightarrow> exn + string" where
  "news_line ia =
     (case ia of
        (i, a) \<Rightarrow>
          (case get_prop a ''title'' of
             Inl e \<Rightarrow> Inl e
           | Inr title \<Rightarrow>
               Inr (show_nat (i + 1) @ ''. '' @ to_string title @ nl @ to_string (js_prop a ''url''))))"

definition getStockNews_data :: "jsval \<Rightarrow> jsval \<Rightarrow> exn + tool_result" where
  "getStockNews_data symbol data =
     (case get_prop data ''feed'' of
        Inl e \<Rightarrow> Inl e
      | Inr feed \<Rightarrow>
          if \<not> truthy feed \<or> js_prop feed ''length'' = Num (Fin 0)
          then Inr (text_result (''No recent news found for '' @ to_string symbol))
          else
            (case slice3 feed of
               Inl e \<Rightarrow> Inl e
             | Inr items \<Rightarrow>
                 (case map_exn news_line (zip [0..<length items] items) of
                    Inl e \<Rightarrow> Inl e
                  | Inr ls \<Rightarrow>
                      (case toUpperCase symbol of
                         Inl e \<Rightarrow> Inl e
                       | Inr up \<Rightarrow>
                           Inr (text_result
                             (''Latest news for '' @ up @ '':'' @ nl @ nl @ join (nl @ nl) ls))))))"

definition getStockNews :: "string option \<Rightarrow> network \<Rightarrow> jsval \<Rightarrow> handler_result" where
  "getStockNews apiKey net symbol =
     (if key_missing apiKey
      then (Inl (Error ''Error: Missing ALPHA_VANTAGE_API_KEY environment variable.''), [])
      else then_format
             (fetch_json net
                (news_url symbol (key_text apiKey))
                (''Failed to get news for '' @ to_string symbol))
             (getStockNews_data symbol))"

subsection \<open>getCompanyOverview\<close>

definition getCompanyOverview_data :: "jsval \<Rightarrow> jsval \<Rightarrow> exn + tool_result" where
  "getCompanyOverview_data symbol data =
     (case get_prop data ''Name'' of
        Inl e \<Rightarrow> Inl e
      | Inr name \<Rightarrow>
          if \<not> truthy name
          then Inl (Error (''No overview data found for '' @ to_string symbol))
          else
            (case substring0 (js_prop data ''Description'') 300 of
               Inl e \<Rightarrow> Inl e
             | Inr d \<Rightarrow>
                 Inr (text_result
                   (''Company: '' @ to_string name @ nl @
                    ''Sector: '' @ to_string (js_prop data ''Sector'') @ nl @
                    ''Industry: '' @ to_string (js_prop data ''Industry'') @ nl @
                    ''Description: '' @ d @ ''...''))))"

definition getCompanyOverview :: "string option \<Rightarrow> network \<Rightarrow> jsval \<Rightarrow> handler_result" where
  "getCompanyOverview apiKey net symbol =
     (if key_missing apiKey then (Inl (Error ''API key not set.''), [])
      else then_format
             (fetch_json net
                (overview_url symbol (key_text apiKey))
                (''Failed to get company overview for '' @ to_string symbol))
             (getCompanyOverview_data symbol))"

subsection \<open>getDividendHistory\<close>

definition dividend_line :: "jsval \<Rightarrow> exn + string" where
  "dividend_line d =
     (case get_prop d ''date'' of
        Inl e \<Rightarrow> Inl e
      | Inr date \<Rightarrow> Inr (to_string date @ '': $'' @ to_string (js_prop d ''dividend'')))"

definition getDividendHistory_data :: "jsval \<Rightarrow> jsval \<Rightarrow> exn + tool_result" where
  "getDividendHistory_data symbol data =
     (case get_prop data ''historical'' of
        Inl e \<Rightarrow> Inl e
      | Inr hist \<Rightarrow>
          if \<not> truthy hist \<or> js_prop hist ''length'' = Num (Fin 0)
          then Inr (text_result (''No dividend history found for '' @ to_string symbol))
          else
            (case slice3 hist of
               Inl e \<Rightarrow> Inl e
             | Inr recent \<Rightarrow>
                 (case map_exn dividend_line recent of
                    Inl e \<Rightarrow> Inl e
                  | Inr ls \<Rightarrow>
                      (case toUpperCase symbol of
                         Inl e \<Rightarrow> Inl e
                       | Inr up \<Rightarrow>
                           Inr (text_result
                             (''Recent dividends for '' @ up @ '':'' @ nl @ join nl ls))))))"

definition getDividendHistory :: "string option \<Rightarrow> network \<Rightarrow> jsval \<Rightarrow> handler_result" where
  "getDividendHistory apiKey net symbol =
     (if key_missing apiKey then (Inl (Error ''API key not set.''), [])
      else then_format
             (fetch_json net
                (dividend_url symbol (key_text apiKey))
                (''Failed to get dividend history for '' @ to_string symbol))
             (getDividendHistory_data symbol))"

subsection \<open>getIntraday\<close>

definition intraday_line :: "jsval \<Rightarrow> string \<Rightarrow> exn + string" where
  "intraday_line series time =
     (case get_prop (js_prop series time) ''1. open'' of
        Inl e \<Rightarrow> Inl e
      | Inr opn \<Rightarrow>
          Inr (time @ '': Open $'' @ to_string opn @
               '', Close $'' @ to_string (js_prop (js_prop series time) ''4. close'')))"

definition getIntraday_data :: "jsval \<Rightarrow> jsval \<Rightarrow> exn + tool_result" where
  "getIntraday_data symbol data =
     (case get_prop data ''Time Series (5min)'' of
        Inl e \<Rightarrow> Inl e
      | Inr series \<Rightarrow>
          if \<not> truthy series
          then Inl (Error (''No intraday data found for '' @ to_string symbol))
          else
            (case own_keys series of
               Inl e \<Rightarrow> Inl e
             | Inr keys \<Rightarrow>
                 (case map_exn (intraday_line series) (take 3 keys) of
                    Inl e \<Rightarrow> Inl e
                  | Inr ls \<Rightarrow>
                      (case toUpperCase symbol of
                         Inl e \<Rightarrow> Inl e
                       | Inr up \<Rightarrow>
                           Inr (text_result
                             (''Recent intraday (5min) prices for '' @ up @ '':'' @ nl @ join nl ls))))))"

definition getIntraday :: "string option \<Rightarrow> network \<Rightarrow> jsval \<Rightarrow> handler_result" where
  "getIntraday apiKey net symbol =
     (if key_missing apiKey then (Inl (Error ''API key not set.''), [])
      else then_format
             (fetch_json net
                (intraday_url symbol (key_text apiKey))
                (''Failed to get intraday data for '' @ to_string symbol))
             (getIntraday_data symbol))"

subsection \<open>convertCurrency\<close>

definition convertCurrency_data :: "jsval \<Rightarrow> jsval \<Rightarrow> jsval \<Rightarrow> jsval \<Rightarrow> exn + tool_result" where
  "convertCurrency_data amount from_currency to_currency data =
     (case get_prop data ''Realtime Currency Exchange Rate'' of
        Inl e \<Rightarrow> Inl e
      | Inr rateInfo \<Rightarrow>
          if \<not> truthy rateInfo then Inl (Error ''No exchange rate data found'')
          else
            let rate = parseFloat (js_prop rateInfo ''5. Exchange Rate'');
                converted = toFixed2 (js_mul (to_number amount) rate)
            in (case toUpperCase from_currency of
                  Inl e \<Rightarrow> Inl e
                | Inr from_up \<Rightarrow>
                    (case toUpperCase to_currency of
                       Inl e \<Rightarrow> Inl e
                     | Inr to_up \<Rightarrow>
                         Inr (text_result
                           (to_string amount @ '' '' @ from_up @ '' = '' @ converted @ '' '' @ to_up @ nl @
                            ''Exchange Rate: '' @ num_to_string rate @ nl @
                            ''Last Refreshed: '' @ to_string (js_prop rateInfo ''6. Last Refreshed''))))))"

definition convertCurrency ::
  "string option \<Rightarrow> network \<Rightarrow> jsval \<Rightarrow> jsval \<Rightarrow> jsval \<Rightarrow> handler_result" where
  "convertCurrency apiKey net amount from_currency to_currency =
     (if \<not> truthy amount \<or> isNaN amount then (Inl (Error ''Amount must be a number''), [])
      else if \<not> truthy from_currency \<or> \<not> truthy to_currency
      then (Inl (Error ''from_currency and to_currency are required''), [])
      else if key_missing apiKey then (Inl (Error ''API key not set.''), [])
      else then_format
             (fetch_json net
                (currency_url from_currency to_currency (key_text apiKey))
                (''Failed to get exchange rate from '' @ to_string from_currency @
                 '' to '' @ to_string to_currency))
             (convertCurrency_data amount from_currency to_currency))"

subsection \<open>calculatePortfolioValue\<close>

text \<open>
  The state of the loop: \<^verbatim>\<open>totalValue\<close>, \<^verbatim>\<open>details\<close>, and the requests issued so far.
\<close>

record pstate =
  totalValue :: jsnum
  details :: "string list"
  requests :: "string list"

text \<open>
  What a parsed quote makes of one holding: nothing when the quote or its price is
  missing (the \<^verbatim>\<open>continue\<close> of line 183), or the detail line and the unrounded value.
\<close>

definition holding_value :: "jsval \<Rightarrow> jsval \<Rightarrow> jsval \<Rightarrow> exn + (string \<times> jsnum) option" where
  "holding_value symbol shares data =
     (case get_prop data ''Global Quote'' of
        Inl e \<Rightarrow> Inl e
      | Inr quote \<Rightarrow>
          if \<not> truthy quote \<or> \<not> truthy (js_prop quote ''05. price'') then Inr None
          else
            let price = parseFloat (js_prop quote ''05. price'');
                val = js_mul price (to_number shares)
            in (case toUpperCase symbol of
                  Inl e \<Rightarrow> Inl e
                | Inr up \<Rightarrow>
                    Inr (Some (to_string shares @ '' shares of '' @ up @ '' at $'' @ toFixed2 price @
                               '' = $'' @ toFixed2 val, val))))"

text \<open>
  One turn of the \<^verbatim>\<open>for\<close> loop on the holding \<open>h\<close>. An exception ends the whole
  invocation (left, with the requests issued); otherwise the next state.
\<close>

definition portfolio_step :: "string \<Rightarrow> network \<Rightarrow> jsval \<Rightarrow> pstate \<Rightarrow> exn \<times> string list + pstate" where
  "portfolio_step key net h st =
     (if nullish h then Inl (TypeError, requests st)
      else
        let symbol = js_prop h ''symbol''; shares = js_prop h ''shares''
        in if \<not> truthy symbol \<or> \<not> truthy shares then Inr st
           else
             let reqs = requests st @ [quote_url symbol key]
             in (case net reqs of
                   Rejected \<Rightarrow> Inl (FetchError, reqs)
                 | Resolved res \<Rightarrow>
                     if \<not> ok res then Inr (st\<lparr>requests := reqs\<rparr>)
                     else
                       (case json res of
                          None \<Rightarrow> Inl (JsonError, reqs)
                        | Some data \<Rightarrow>
                            (case holding_value symbol shares data of
                               Inl e \<Rightarrow> Inl (e, reqs)
                             | Inr None \<Rightarrow> Inr (st\<lparr>requests := reqs\<rparr>)
                             | Inr (Some (line, val)) \<Rightarrow>
                                 Inr \<lparr>totalValue = js_add (totalValue st) val,
                                      details = details st @ [line],
                                      requests = reqs\<rparr>))))"

fun portfolio_loop :: "string \<Rightarrow> network \<Rightarrow> jsval list \<Rightarrow> pstate \<Rightarrow> exn \<times> string list + pstate" where
  "portfolio_loop key net [] st = Inr st"
| "portfolio_loop key net (h # hs) st =
     (case portfolio_step key net h st of
        Inl e \<Rightarrow> Inl e
      | Inr st' \<Rightarrow> portfolio_loop key net hs st')"

definition portfolio_text :: "pstate \<Rightarrow> string" where
  "portfolio_text st =
     ''Portfolio Value:'' @ nl @ join nl (details st) @ nl @ nl @
     ''Total Estimated Value: $'' @ toFixed2 (totalValue st)"

definition calculatePortfolioValue :: "string option \<Rightarrow> network \<Rightarrow> jsval \<Rightarrow> handler_result" where
  "calculatePortfolioValue apiKey net holdings =
     (if key_missing apiKey then (Inl (Error ''API key not set.''), [])
      else
        (case holdings of
           Arr hs \<Rightarrow>
             if hs = [] then (Inl (Error ''holdings must be a non-empty array''), [])
             else
               (case portfolio_loop (key_text apiKey) net hs
                       \<lparr>totalValue = Fin 0, details = [], requests = []\<rparr> of
                  Inl (e, reqs) \<Rightarrow> (Inl e, reqs)
                | Inr st \<Rightarrow> (Inr (text_result (portfolio_text st)), requests st))
         | _ \<Rightarrow> (Inl (Error ''holdings must be a non-empty array''), [])))"

section \<open>Error classes\<close>

text \<open>
  The handlers raise plain \<^verbatim>\<open>Error\<close> objects; the classes are told apart by the message.
  The missing-key message has two wordings (lines 21 and 41, and lines 66 to 169).
\<close>

definition is_missing_credential :: "exn \<Rightarrow> bool" where
  "is_missing_credential e =
     (e = Error ''Error: Missing ALPHA_VANTAGE_API_KEY environment variable.''
      \<or> e = Error ''API key not set.'')"

definition is_invalid_input :: "exn \<Rightarrow> bool" where
  "is_invalid_input e =
     (e = Error ''Amount must be a number''
      \<or> e = Error ''from_currency and to_currency are required'')"

section \<open>The behaviour in the words of the specification\<close>

text \<open>
  The falsy values of the language: \<^verbatim>\<open>undefined\<close>, \<^verbatim>\<open>null\<close>, \<^verbatim>\<open>false\<close>, 0, \<^verbatim>\<open>NaN\<close> and
  the empty string. For an argument this is "missing or empty".
\<close>

fun falsy :: "jsval \<Rightarrow> bool" where
  "falsy Undefined = True"
| "falsy Null = True"
| "falsy (Bool b) = (\<not> b)"
| "falsy (Num n) = (n = Fin 0 \<or> n = NaN)"
| "falsy (Str s) = (s = [])"
| "falsy (Arr _) = False"
| "falsy (Obj _) = False"

text \<open>
  The amounts \<^verbatim>\<open>convertCurrency\<close> turns down, by the kind of value: a missing amount, the
  numbers 0 and \<^verbatim>\<open>NaN\<close>, \<^verbatim>\<open>false\<close>, the empty string, a string or an array whose text
  does not read as a number, and every object. A boolean \<^verbatim>\<open>true\<close>, a string or array that
  reads as a number (a blank string and the empty array read as 0) are taken.
\<close>

fun amount_rejected :: "jsval \<Rightarrow> bool" where
  "amount_rejected Undefined = True"
| "amount_rejected Null = True"
| "amount_rejected (Bool b) = (\<not> b)"
| "amount_rejected (Num n) = (n = Fin 0 \<or> n = NaN)"
| "amount_rejected (Str s) = (s = [] \<or> str_to_number s = NaN)"
| "amount_rejected (Arr xs) = (str_to_number (to_string (Arr xs)) = NaN)"
| "amount_rejected (Obj _) = True"

text \<open>
  The portfolio as a list of contributions. A holding is asked about when it has a symbol
  and shares. What it contributes, given the requests issued before it: its detail line
  and value when the response to its request is ok and its parsed body holds a price,
  and nothing otherwise; with it, the requests issued after it. The contributions of a
  list of holdings are those of its members, in order.
\<close>

definition asked :: "jsval \<Rightarrow> bool" where
  "asked h = (\<not> falsy (js_prop h ''symbol'') \<and> \<not> falsy (js_prop h ''shares''))"

definition holding_entry ::
  "string \<Rightarrow> network \<Rightarrow> string list \<Rightarrow> jsval \<Rightarrow> (string \<times> jsnum) option \<times> string list" where
  "holding_entry key net reqs h =
     (if \<not> asked h then (None, reqs)
      else
        (case net (reqs @ [quote_url (js_prop h ''symbol'') key]) of
           Resolved (Response True (Some data)) \<Rightarrow>
             (case holding_value (js_prop h ''symbol'') (js_prop h ''shares'') data of
                Inr (Some entry) \<Rightarrow> (Some entry, reqs @ [quote_url (js_prop h ''symbol'') key])
              | _ \<Rightarrow> (None, reqs @ [quote_url (js_prop h ''symbol'') key]))
         | _ \<Rightarrow> (None, reqs @ [quote_url (js_prop h ''symbol'') key])))"

fun counted :: "string \<Rightarrow> network \<Rightarrow> string list \<Rightarrow> jsval list \<Rightarrow> (string \<times> jsnum) list" where
  "counted key net reqs [] = []"
| "counted key net reqs (h # hs) =
     (case holding_entry key net reqs h of
        (None, reqs') \<Rightarrow> counted key net reqs' hs
      | (Some entry, reqs') \<Rightarrow> entry # counted key net reqs' hs)"

text \<open>
  The text of the result for a list of contributions: the lines, and the sum of the
  values as they are, rounded once by \<^verbatim>\<open>toFixed(2)\<close>.
\<close>

definition portfolio_report :: "(string \<times> jsnum) list \<Rightarrow> string" where
  "portfolio_report entries =
     ''Portfolio Value:'' @ nl @ join nl (map fst entries) @ nl @ nl @
     ''Total Estimated Value: $'' @ toFixed2 (foldl js_add (Fin 0) (map snd entries))"

text \<open>
  Holdings and a network with which no turn of the loop raises: every holding is an
  object whose symbol, if it has one, is a string, and every request gets a response
  whose body, when the response is ok, is JSON other than \<^verbatim>\<open>null\<close>.
\<close>

definition plain_holding :: "jsval \<Rightarrow> bool" where
  "plain_holding h =
     (\<not> nullish h \<and> (falsy (js_prop h ''symbol'') \<or> (\<exists>s. js_prop h ''symbol'' = Str s)))"

definition answering :: "network \<Rightarrow> bool" where
  "answering net =
     (\<forall>reqs. \<exists>res. net reqs = Resolved res
        \<and> (ok res \<longrightarrow> (\<exists>data. json res = Some data \<and> \<not> nullish data)))"

section \<open>Expected outputs and sample data\<close>

text \<open>The line \<^verbatim>\<open>getIntraday\<close> prints for the timestamp \<open>t\<close> of a time series.\<close>

definition intraday_entry :: "(string \<times> jsval) list \<Rightarrow> string \<Rightarrow> string" where
  "intraday_entry series t =
     t @ '': Open $'' @ to_string (js_prop (js_prop (Obj series) t) ''1. open'') @
     '', Close $'' @ to_string (js_prop (js_prop (Obj series) t) ''4. close'')"

text \<open>A time series of four timestamps, most recent first, as the provider sends it.\<close>

definition sample_series :: "(string \<times> jsval) list" where
  "sample_series =
     [(''2024-05-01 19:55:00'', Obj [(''1. open'', Str ''169.30''), (''4. close'', Str ''169.35'')]),
      (''2024-05-01 19:50:00'', Obj [(''1. open'', Str ''169.28''), (''4. close'', Str ''169.30'')]),
      (''2024-05-01 19:45:00'', Obj [(''1. open'', Str ''169.20''), (''4. close'', Str ''169.28'')]),
      (''2024-05-01 19:40:00'', Obj [(''1. open'', Str ''169.00''), (''4. close'', Str ''169.20'')])]"

text \<open>
  A quote response with the given price, a holding, a provider that knows AAPL and
  answers every other symbol with an empty quote (as the provider does for an unknown
  ticker), and one whose connection fails for every symbol but AAPL.
\<close>

definition quote_body :: "jsval \<Rightarrow> jsval" where
  "quote_body price = Obj [(''Global Quote'', Obj [(''01. symbol'', Str ''AAPL''), (''05. price'', price)])]"

definition holding :: "string \<Rightarrow> real \<Rightarrow> jsval" where
  "holding symbol shares = Obj [(''symbol'', Str symbol), (''shares'', Num (Fin shares))]"

definition sample_network :: network where
  "sample_network reqs =
     (if last reqs = quote_url (Str ''AAPL'') ''demo''
      then Resolved (Response True (Some (quote_body (Str ''150.2500''))))
      else Resolved (Response True (Some (Obj [(''Global Quote'', Obj [])]))))"


text \<open>A provider that quotes every symbol at 0.004.\<close>

definition penny_network :: network where
  "penny_network reqs = Resolved (Response True (Some (quote_body (Str ''0.004''))))"

section \<open>Evaluation lemmas\<close>

lemmas double_eval =
  round_double_def floor_log_def ndigits.simps pow2_def pow10_def round_half_even_def Let_def

lemmas scan_eval =
  str_to_number_def parseFloat_str_def trim_def is_ws_def radix_literal_def scan_signed_def
  scan_unsigned_def scan_exponent_def is_digit_def digits_val_def digit_val_def

section \<open>convertCurrency: validation of the arguments\<close>

lemma then_format_not_invalid:
  "fst (then_format (fetch_json net url (''Failed to get exchange rate from '' @ m)) f) = Inl e \<Longrightarrow>
   (\<And>d e'. f d = Inl e' \<Longrightarrow> \<not> is_invalid_input e') \<Longrightarrow> \<not> is_invalid_input e"
  by (auto simp: then_format_def fetch_json_def is_invalid_input_def
      split: fetch_outcome.splits if_splits option.splits prod.splits sum.splits)

lemma convertCurrency_data_not_invalid:
  "convertCurrency_data a f t d = Inl e \<Longrightarrow> \<not> is_invalid_input e"
  by (auto simp: convertCurrency_data_def get_prop_def is_invalid_input_def Let_def
      split: if_splits sum.splits jsval.splits elim!: toUpperCase.elims)

lemma truthy_falsy: "truthy v = (\<not> falsy v)"
  by (cases v rule: truthy.cases) auto

lemma amount_guard: "(\<not> truthy a \<or> isNaN a) = amount_rejected a"
  by (cases a rule: truthy.cases) (auto simp: isNaN_def)

lemma snd_then_format: "snd (then_format (fetch_json net url msg) f) = [url]"
  by (auto simp: then_format_def fetch_json_def
      split: fetch_outcome.splits option.splits prod.splits sum.splits)

lemma convertCurrency_cases:
  "convertCurrency apiKey net amount from_currency to_currency =
     (if amount_rejected amount then (Inl (Error ''Amount must be a number''), [])
      else if falsy from_currency \<or> falsy to_currency
      then (Inl (Error ''from_currency and to_currency are required''), [])
      else if key_missing apiKey then (Inl (Error ''API key not set.''), [])
      else then_format
             (fetch_json net
                (currency_url from_currency to_currency (key_text apiKey))
                (''Failed to get exchange rate from '' @ to_string from_currency @
                 '' to '' @ to_string to_currency))
             (convertCurrency_data amount from_currency to_currency))"
  unfolding convertCurrency_def amount_guard by (simp only: truthy_falsy not_not)

lemma amount_rejected_samples:
  "amount_rejected (Str ''abc'')" "amount_rejected Undefined" "\<not> amount_rejected (Bool True)"
  "\<not> amount_rejected (Str ''12'')" "\<not> amount_rejected (Str '' '')" "\<not> amount_rejected (Arr [])"
  by (simp_all add: scan_eval radix_val.simps double_eval)

text \<open>
  C4, as the code has it. \<^verbatim>\<open>convertCurrency\<close> fails with "Amount must be a number", before
  any request and whatever the key and the network are, exactly when the amount is turned
  down: it is missing, falsy (0, \<^verbatim>\<open>NaN\<close>, \<^verbatim>\<open>false\<close>, the empty string) or does not convert
  to a number (the string "abc", an object). With an accepted amount it fails with
  "from_currency and to_currency are required", again before any request, exactly when a
  currency code is missing or empty. Nothing else is checked: with an accepted amount,
  two non-empty codes and a key the request is issued, and no later failure is an
  invalid-input error. An amount that is no number but converts to one (\<^verbatim>\<open>true\<close>, "12",
  a blank string, the empty array) is accepted.
\<close>

theorem convertCurrency_input_validation:
  "((convertCurrency apiKey net amount from_currency to_currency =
       (Inl (Error ''Amount must be a number''), [])) = amount_rejected amount)
   \<and> (\<not> amount_rejected amount \<longrightarrow>
        ((convertCurrency apiKey net amount from_currency to_currency =
            (Inl (Error ''from_currency and to_currency are required''), []))
         = (falsy from_currency \<or> falsy to_currency)))
   \<and> (\<not> amount_rejected amount \<and> \<not> falsy from_currency \<and> \<not> falsy to_currency
        \<and> \<not> key_missing apiKey \<longrightarrow>
        snd (convertCurrency apiKey net amount from_currency to_currency) =
          [currency_url from_currency to_currency (key_text apiKey)]
        \<and> (\<forall>e. fst (convertCurrency apiKey net amount from_currency to_currency) = Inl e
               \<longrightarrow> \<not> is_invalid_input e))
   \<and> amount_rejected (Str ''abc'') \<and> amount_rejected Undefined
   \<and> \<not> amount_rejected (Bool True) \<and> \<not> amount_rejected (Str ''12'')
   \<and> \<not> amount_rejected (Str '' '') \<and> \<not> amount_rejected (Arr [])
   \<and> is_invalid_input (Error ''Amount must be a number'')
   \<and> is_invalid_input (Error ''from_currency and to_currency are required'')"
proof -
  have 1: "(convertCurrency apiKey net amount from_currency to_currency =
       (Inl (Error ''Amount must be a number''), [])) = amount_rejected amount"
  proof (cases "amount_rejected amount")
    case True
    then show ?thesis by (simp add: convertCurrency_cases)
  next
    case False
    then have "snd (convertCurrency apiKey net amount from_currency to_currency) \<noteq> []
        \<or> fst (convertCurrency apiKey net amount from_currency to_currency) \<noteq>
            Inl (Error ''Amount must be a number'')"
      by (simp add: convertCurrency_cases snd_then_format)
    with False show ?thesis by auto
  qed
  have 2: "\<not> amount_rejected amount \<longrightarrow>
        ((convertCurrency apiKey net amount from_currency to_currency =
            (Inl (Error ''from_currency and to_currency are required''), []))
         = (falsy from_currency \<or> falsy to_currency))"
  proof (intro impI, cases "falsy from_currency \<or> falsy to_currency")
    case True
    assume "\<not> amount_rejected amount"
    with True show "(convertCurrency apiKey net amount from_currency to_currency =
            (Inl (Error ''from_currency and to_currency are required''), []))
         = (falsy from_currency \<or> falsy to_currency)"
      by (simp add: convertCurrency_cases)
  next
    case False
    assume a: "\<not> amount_rejected amount"
    with False have "snd (convertCurrency apiKey net amount from_currency to_currency) \<noteq> []
        \<or> fst (convertCurrency apiKey net amount from_currency to_currency) \<noteq>
            Inl (Error ''from_currency and to_currency are required'')"
      by (simp add: convertCurrency_cases snd_then_format)
    with False show "(convertCurrency apiKey net amount from_currency to_currency =
            (Inl (Error ''from_currency and to_currency are required''), []))
         = (falsy from_currency \<or> falsy to_currency)"
      by auto
  qed
  have 3: "\<not> amount_rejected amount \<and> \<not> falsy from_currency \<and> \<not> falsy to_currency
        \<and> \<not> key_missing apiKey \<longrightarrow>
        snd (convertCurrency apiKey net amount from_currency to_currency) =
          [currency_url from_currency to_currency (key_text apiKey)]
        \<and> (\<forall>e. fst (convertCurrency apiKey net amount from_currency to_currency) = Inl e
               \<longrightarrow> \<not> is_invalid_input e)"
    using then_format_not_invalid convertCurrency_data_not_invalid
    by (simp add: convertCurrency_cases snd_then_format)
  have 4: "is_invalid_input (Error ''Amount must be a number'')"
    "is_invalid_input (Error ''from_currency and to_currency are required'')"
    by (simp_all add: is_invalid_input_def)
  from 1 2 3 4 amount_rejected_samples show ?thesis by blast
qed

theorem convertCurrency_input_validation_witness:
  "convertCurrency (Some ''demo'') (\<lambda>_. Rejected) (Str ''abc'') (Str ''USD'') (Str ''EUR'') =
     (Inl (Error ''Amount must be a number''), [])
   \<and> convertCurrency (Some ''demo'') (\<lambda>_. Rejected) (Num (Fin 100)) Undefined (Str ''EUR'') =
     (Inl (Error ''from_currency and to_currency are required''), [])
   \<and> snd (convertCurrency (Some ''demo'') (\<lambda>_. Rejected) (Num (Fin 100)) (Str ''usd'') (Str ''?'')) =
     [currency_url (Str ''usd'') (Str ''?'') (key_text (Some ''demo''))]"
proof -
  note a = convertCurrency_input_validation
      [where amount = "Str ''abc''" and apiKey = "Some ''demo''" and net = "\<lambda>_. Rejected"
        and from_currency = "Str ''USD''" and to_currency = "Str ''EUR''"]
  note b = convertCurrency_input_validation
      [where amount = "Num (Fin 100)" and apiKey = "Some ''demo''" and net = "\<lambda>_. Rejected"
        and from_currency = Undefined and to_currency = "Str ''EUR''"]
  note c = convertCurrency_input_validation
      [where amount = "Num (Fin 100)" and apiKey = "Some ''demo''" and net = "\<lambda>_. Rejected"
        and from_currency = "Str ''usd''" and to_currency = "Str ''?''"]
  have h: "\<not> amount_rejected (Num (Fin 100))" "falsy Undefined" "\<not> falsy (Str ''usd'')"
    "\<not> falsy (Str ''?'')" "\<not> key_missing (Some ''demo'')"
    by (simp_all add: key_missing_def)
  from a b c h show ?thesis by blast
qed

text \<open>
  C4 as stated fails: the amount \<^verbatim>\<open>true\<close> is not numeric, and the handler accepts it and
  issues the request (here the connection fails, which is no invalid-input error).
\<close>

theorem convertCurrency_true_amount_counterexample:
  "convertCurrency (Some ''demo'') (\<lambda>_. Rejected) (Bool True) (Str ''USD'') (Str ''EUR'') =
     (Inl FetchError, [currency_url (Str ''USD'') (Str ''EUR'') ''demo''])
   \<and> \<not> is_invalid_input FetchError"
  by (simp add: convertCurrency_def isNaN_def key_missing_def key_text_def then_format_def
      fetch_json_def is_invalid_input_def)

text \<open>
  C9. The amount 0 is a number, and yet \<^verbatim>\<open>convertCurrency\<close> rejects it with "Amount must be
  a number" before any request: \<^verbatim>\<open>!amount\<close> holds for every falsy value.
\<close>

theorem convertCurrency_zero_amount:
  "convertCurrency apiKey net (Num (Fin 0)) from_currency to_currency =
     (Inl (Error ''Amount must be a number''), [])
   \<and> is_invalid_input (Error ''Amount must be a number'')
   \<and> \<not> isNaN (Num (Fin 0))"
  by (simp add: convertCurrency_def is_invalid_input_def isNaN_def)

theorem convertCurrency_zero_amount_witness:
  "convertCurrency (Some ''demo'') (\<lambda>_. Resolved (Response True (Some (Obj []))))
       (Num (Fin 0)) (Str ''USD'') (Str ''EUR'') =
     (Inl (Error ''Amount must be a number''), [])"
  using convertCurrency_zero_amount
    [of "Some ''demo''" "\<lambda>_. Resolved (Response True (Some (Obj [])))" "Str ''USD''" "Str ''EUR''"]
  by simp

section \<open>Shared facts about the handlers\<close>

lemmas handler_eval =
  key_missing_def key_text_def then_format_def fetch_json_def get_prop_def nullish_def
  quote_url_def news_url_def overview_url_def dividend_url_def intraday_url_def currency_url_def
  endpoint_def nl_def

lemma fetched:
  "net [url] = Resolved (Response True (Some data)) \<Longrightarrow>
   then_format (fetch_json net url msg) f = (f data, [url])"
  by (simp add: then_format_def fetch_json_def)

lemma then_format_Inr:
  "fst (then_format r f) = Inr x \<Longrightarrow> \<exists>d. f d = Inr x"
  by (auto simp: then_format_def split: prod.splits sum.splits)

lemma content_text_result: "content (text_result t) = [\<lparr>ctype = ''text'', ctext = t\<rparr>]"
  by (simp add: text_result_def)

lemma map_exn_all_Inr:
  "\<forall>x \<in> set xs. f x = Inr (g x) \<Longrightarrow> map_exn f xs = Inr (map g xs)"
  by (induction xs) auto

lemma getStockNews_fetched:
  "\<not> key_missing apiKey \<Longrightarrow>
   net [news_url symbol (key_text apiKey)] = Resolved (Response True (Some data)) \<Longrightarrow>
   getStockNews apiKey net symbol = (getStockNews_data symbol data, [news_url symbol (key_text apiKey)])"
  by (simp add: getStockNews_def fetched)

lemma getIntraday_fetched:
  "\<not> key_missing apiKey \<Longrightarrow>
   net [intraday_url symbol (key_text apiKey)] = Resolved (Response True (Some data)) \<Longrightarrow>
   getIntraday apiKey net symbol = (getIntraday_data symbol data, [intraday_url symbol (key_text apiKey)])"
  by (simp add: getIntraday_def fetched)

lemma getCompanyOverview_fetched:
  "\<not> key_missing apiKey \<Longrightarrow>
   net [overview_url symbol (key_text apiKey)] = Resolved (Response True (Some data)) \<Longrightarrow>
   getCompanyOverview apiKey net symbol =
     (getCompanyOverview_data symbol data, [overview_url symbol (key_text apiKey)])"
  by (simp add: getCompanyOverview_def fetched)

lemma fixed2_pos_zero: "fixed2_pos 0 = ''0.00''"
  by (simp add: fixed2_pos_def show_nat.simps digit_char_def)

section \<open>The missing API key\<close>

text \<open>
  C2, as the code has it. With the key unset or empty, six handlers fail with the
  missing-key error before any request. \<^verbatim>\<open>convertCurrency\<close> validates its arguments
  first (lines 140 and 141 stand before the key check of line 144): an amount that is
  turned down gives "Amount must be a number", a missing or empty currency code gives
  "from_currency and to_currency are required" (both invalid-input errors, neither a
  missing-key error), and only accepted arguments give the missing-key error; in every
  case no request is issued.
\<close>

theorem missing_key_fails_before_any_request:
  assumes "key_missing apiKey"
  shows "getStockPrice apiKey net symbol =
           (Inl (Error ''Error: Missing ALPHA_VANTAGE_API_KEY environment variable.''), [])
       \<and> getStockNews apiKey net symbol =
           (Inl (Error ''Error: Missing ALPHA_VANTAGE_API_KEY environment variable.''), [])
       \<and> getCompanyOverview apiKey net symbol = (Inl (Error ''API key not set.''), [])
       \<and> getDividendHistory apiKey net symbol = (Inl (Error ''API key not set.''), [])
       \<and> getIntraday apiKey net symbol = (Inl (Error ''API key not set.''), [])
       \<and> calculatePortfolioValue apiKey net holdings = (Inl (Error ''API key not set.''), [])
       \<and> (amount_rejected amount \<longrightarrow>
            convertCurrency apiKey net amount from_currency to_currency =
              (Inl (Error ''Amount must be a number''), []))
       \<and> (\<not> amount_rejected amount \<and> (falsy from_currency \<or> falsy to_currency) \<longrightarrow>
            convertCurrency apiKey net amount from_currency to_currency =
              (Inl (Error ''from_currency and to_currency are required''), []))
       \<and> (\<not> amount_rejected amount \<and> \<not> falsy from_currency \<and> \<not> falsy to_currency \<longrightarrow>
            convertCurrency apiKey net amount from_currency to_currency =
              (Inl (Error ''API key not set.''), []))
       \<and> is_missing_credential (Error ''Error: Missing ALPHA_VANTAGE_API_KEY environment variable.'')
       \<and> is_missing_credential (Error ''API key not set.'')
       \<and> is_invalid_input (Error ''Amount must be a number'')
       \<and> \<not> is_missing_credential (Error ''Amount must be a number'')
       \<and> is_invalid_input (Error ''from_currency and to_currency are required'')
       \<and> \<not> is_missing_credential (Error ''from_currency and to_currency are required'')"
  using assms
  by (auto simp: getStockPrice_def getStockNews_def getCompanyOverview_def getDividendHistory_def
      getIntraday_def calculatePortfolioValue_def convertCurrency_cases is_missing_credential_def
      is_invalid_input_def)

theorem missing_key_fails_before_any_request_witness:
  "getStockPrice (Some []) (\<lambda>_. Rejected) (Str ''AAPL'') =
     (Inl (Error ''Error: Missing ALPHA_VANTAGE_API_KEY environment variable.''), [])
   \<and> calculatePortfolioValue (Some []) (\<lambda>_. Rejected)
       (Arr [Obj [(''symbol'', Str ''AAPL''), (''shares'', Num (Fin 10))]]) =
     (Inl (Error ''API key not set.''), [])
   \<and> convertCurrency (Some []) (\<lambda>_. Rejected) (Num (Fin 100)) (Str ''USD'') (Str ''EUR'') =
     (Inl (Error ''API key not set.''), [])
   \<and> convertCurrency (Some []) (\<lambda>_. Rejected) (Bool True) (Str ''USD'') (Str ''EUR'') =
     (Inl (Error ''API key not set.''), [])
   \<and> convertCurrency (Some []) (\<lambda>_. Rejected) (Str ''abc'') (Str ''USD'') (Str ''EUR'') =
     (Inl (Error ''Amount must be a number''), [])
   \<and> convertCurrency (Some []) (\<lambda>_. Rejected) (Num (Fin 100)) (Str ''USD'') (Str []) =
     (Inl (Error ''from_currency and to_currency are required''), [])"
proof -
  have k: "key_missing (Some [])" by (simp add: key_missing_def)
  note t = missing_key_fails_before_any_request [OF k]
  note a = t [where net = "\<lambda>_. Rejected" and symbol = "Str ''AAPL''"
        and holdings = "Arr [Obj [(''symbol'', Str ''AAPL''), (''shares'', Num (Fin 10))]]"
        and amount = "Num (Fin 100)" and from_currency = "Str ''USD''" and to_currency = "Str ''EUR''"]
  note b = t [where net = "\<lambda>_. Rejected" and symbol = "Str ''AAPL''"
        and holdings = "Arr []"
        and amount = "Bool True" and from_currency = "Str ''USD''" and to_currency = "Str ''EUR''"]
  note c = t [where net = "\<lambda>_. Rejected" and symbol = "Str ''AAPL''"
        and holdings = "Arr []"
        and amount = "Str ''abc''" and from_currency = "Str ''USD''" and to_currency = "Str ''EUR''"]
  note d = t [where net = "\<lambda>_. Rejected" and symbol = "Str ''AAPL''"
        and holdings = "Arr []"
        and amount = "Num (Fin 100)" and from_currency = "Str ''USD''" and to_currency = "Str []"]
  have h: "\<not> amount_rejected (Num (Fin 100))" "\<not> falsy (Str ''USD'')" "\<not> falsy (Str ''EUR'')"
    "falsy (Str [])"
    by simp_all
  from a b c d h amount_rejected_samples show ?thesis by blast
qed

text \<open>
  C2 as stated fails for \<^verbatim>\<open>convertCurrency\<close>: with no key and the amount 0 the failure is
  "Amount must be a number", which is no missing-key error.
\<close>

theorem missing_key_convertCurrency_counterexample:
  "key_missing None
   \<and> convertCurrency None (\<lambda>_. Rejected) (Num (Fin 0)) (Str ''USD'') (Str ''EUR'') =
       (Inl (Error ''Amount must be a number''), [])
   \<and> \<not> is_missing_credential (Error ''Amount must be a number'')"
  by (simp add: key_missing_def convertCurrency_def is_missing_credential_def)

section \<open>getStockNews: no news is no error\<close>

text \<open>
  C6. When the request succeeds and the parsed body (any JSON value but \<^verbatim>\<open>null\<close>) has no
  \<^verbatim>\<open>feed\<close> field or an empty list there, \<^verbatim>\<open>getStockNews\<close> returns a tool result with the
  text "No recent news found for" and the symbol, not an error.
\<close>

theorem getStockNews_no_news:
  assumes "\<not> key_missing apiKey"
    and "net [news_url symbol (key_text apiKey)] = Resolved (Response True (Some data))"
    and "\<not> nullish data"
    and "js_prop data ''feed'' = Undefined \<or> js_prop data ''feed'' = Arr []"
  shows "getStockNews apiKey net symbol =
           (Inr (text_result (''No recent news found for '' @ to_string symbol)),
            [news_url symbol (key_text apiKey)])"
  using assms by (auto simp: getStockNews_fetched getStockNews_data_def get_prop_def)

theorem getStockNews_no_news_witness:
  "getStockNews (Some ''demo'') (\<lambda>_. Resolved (Response True (Some (Obj [(''feed'', Arr [])]))))
       (Str ''AAPL'') =
     (Inr (text_result ''No recent news found for AAPL''),
      [''https://www.alphavantage.co/query?function=NEWS_SENTIMENT&tickers=AAPL&apikey=demo''])
   \<and> getStockNews (Some ''demo'')
       (\<lambda>_. Resolved (Response True (Some (Obj [(''Information'', Str ''rate limit'')]))))
       (Str ''AAPL'') =
     (Inr (text_result ''No recent news found for AAPL''),
      [''https://www.alphavantage.co/query?function=NEWS_SENTIMENT&tickers=AAPL&apikey=demo''])"
  using getStockNews_no_news
      [of "Some ''demo''" "\<lambda>_. Resolved (Response True (Some (Obj [(''feed'', Arr [])])))"
        "Str ''AAPL''" "Obj [(''feed'', Arr [])]"]
    getStockNews_no_news
      [of "Some ''demo''"
        "\<lambda>_. Resolved (Response True (Some (Obj [(''Information'', Str ''rate limit'')])))"
        "Str ''AAPL''" "Obj [(''Information'', Str ''rate limit'')]"]
  by (simp add: handler_eval)

section \<open>getIntraday: the first three timestamps\<close>

text \<open>
  C7. When the time series is a mapping with at least three timestamps (each mapped to an
  object, the symbol a string), the text of \<^verbatim>\<open>getIntraday\<close> is the header followed by
  exactly three lines: the first three keys in the order of the mapping, each with the
  open and close values the mapping holds for it.
\<close>

theorem getIntraday_first_three:
  assumes "\<not> key_missing apiKey"
    and "net [intraday_url (Str s) (key_text apiKey)] = Resolved (Response True (Some data))"
    and "\<not> nullish data"
    and "js_prop data ''Time Series (5min)'' = Obj series"
    and "3 \<le> length series"
    and "\<forall>t \<in> set (take 3 (map fst series)). \<not> nullish (js_prop (Obj series) t)"
  shows "getIntraday apiKey net (Str s) =
           (Inr (text_result
              (''Recent intraday (5min) prices for '' @ map upper_char s @ '':'' @ nl @
               join nl (map (intraday_entry series) (take 3 (map fst series))))),
            [intraday_url (Str s) (key_text apiKey)])
         \<and> length (map (intraday_entry series) (take 3 (map fst series))) = 3"
proof -
  have "\<forall>t \<in> set (take 3 (map fst series)).
          intraday_line (Obj series) t = Inr (intraday_entry series t)"
    using assms(6) by (auto simp: intraday_line_def intraday_entry_def get_prop_def)
  then have "map_exn (intraday_line (Obj series)) (take 3 (map fst series)) =
          Inr (map (intraday_entry series) (take 3 (map fst series)))"
    by (rule map_exn_all_Inr)
  then have "getIntraday_data (Str s) data =
      Inr (text_result
              (''Recent intraday (5min) prices for '' @ map upper_char s @ '':'' @ nl @
               join nl (map (intraday_entry series) (take 3 (map fst series)))))"
    using assms(3,4) by (simp add: getIntraday_data_def get_prop_def)
  moreover have "length (map (intraday_entry series) (take 3 (map fst series))) = 3"
    using assms(5) by simp
  ultimately show ?thesis
    using assms(1,2) by (simp add: getIntraday_fetched)
qed

theorem getIntraday_first_three_witness:
  "getIntraday (Some ''demo'')
       (\<lambda>_. Resolved (Response True (Some (Obj [(''Time Series (5min)'', Obj sample_series)]))))
       (Str ''aapl'') =
     (Inr (text_result
        (''Recent intraday (5min) prices for AAPL:'' @ nl @
         ''2024-05-01 19:55:00: Open $169.30, Close $169.35'' @ nl @
         ''2024-05-01 19:50:00: Open $169.28, Close $169.30'' @ nl @
         ''2024-05-01 19:45:00: Open $169.20, Close $169.28'')),
      [''https://www.alphavantage.co/query?function=TIME_SERIES_INTRADAY&symbol=aapl&interval=5min&apikey=demo''])"
  using getIntraday_first_three
      [of "Some ''demo''"
        "\<lambda>_. Resolved (Response True (Some (Obj [(''Time Series (5min)'', Obj sample_series)])))"
        "''aapl''" "Obj [(''Time Series (5min)'', Obj sample_series)]" sample_series]
  by (simp add: handler_eval sample_series_def intraday_entry_def upper_char_def)

section \<open>getCompanyOverview: the description\<close>

text \<open>
  C10. When the body has no \<^verbatim>\<open>Description\<close> field the invocation fails, whatever else the
  body holds; with a \<^verbatim>\<open>Name\<close> (so that line 73 lets it pass) the failure is the
  \<^verbatim>\<open>TypeError\<close> of \<^verbatim>\<open>data.Description.substring\<close> on line 82.
\<close>

theorem getCompanyOverview_needs_description:
  assumes "\<not> key_missing apiKey"
    and "net [overview_url symbol (key_text apiKey)] = Resolved (Response True (Some data))"
    and "js_prop data ''Description'' = Undefined"
  shows "(\<exists>e. getCompanyOverview apiKey net symbol = (Inl e, [overview_url symbol (key_text apiKey)]))
         \<and> (\<not> nullish data \<and> truthy (js_prop data ''Name'') \<longrightarrow>
              getCompanyOverview apiKey net symbol =
                (Inl TypeError, [overview_url symbol (key_text apiKey)]))"
  using assms by (auto simp: getCompanyOverview_fetched getCompanyOverview_data_def get_prop_def)

theorem getCompanyOverview_needs_description_witness:
  "getCompanyOverview (Some ''demo'')
       (\<lambda>_. Resolved (Response True (Some (Obj [(''Name'', Str ''Apple Inc''), (''Sector'', Str ''TECHNOLOGY'')]))))
       (Str ''AAPL'') =
     (Inl TypeError, [''https://www.alphavantage.co/query?function=OVERVIEW&symbol=AAPL&apikey=demo''])"
  using getCompanyOverview_needs_description
      [of "Some ''demo''"
        "\<lambda>_. Resolved (Response True (Some (Obj [(''Name'', Str ''Apple Inc''), (''Sector'', Str ''TECHNOLOGY'')])))"
        "Str ''AAPL''" "Obj [(''Name'', Str ''Apple Inc''), (''Sector'', Str ''TECHNOLOGY'')]"]
  by (simp add: handler_eval)

text \<open>
  C5, as the code has it. When the body has a \<^verbatim>\<open>Name\<close> and its \<^verbatim>\<open>Description\<close> is a string,
  the result is a text whose last line is "Description: ", the first 300 characters of
  the description (all of it when it is shorter) and "...".
\<close>

theorem getCompanyOverview_truncates:
  assumes "\<not> key_missing apiKey"
    and "net [overview_url symbol (key_text apiKey)] = Resolved (Response True (Some data))"
    and "\<not> nullish data"
    and "truthy (js_prop data ''Name'')"
    and "js_prop data ''Description'' = Str d"
  shows "getCompanyOverview apiKey net symbol =
           (Inr (text_result
              (''Company: '' @ to_string (js_prop data ''Name'') @ nl @
               ''Sector: '' @ to_string (js_prop data ''Sector'') @ nl @
               ''Industry: '' @ to_string (js_prop data ''Industry'') @ nl @
               ''Description: '' @ take 300 d @ ''...'')),
            [overview_url symbol (key_text apiKey)])
         \<and> length (take 300 d) = min 300 (length d)"
  using assms by (auto simp: getCompanyOverview_fetched getCompanyOverview_data_def get_prop_def)

theorem getCompanyOverview_truncates_witness:
  "getCompanyOverview (Some ''demo'')
       (\<lambda>_. Resolved (Response True
          (Some (Obj [(''Name'', Str ''Apple Inc''), (''Sector'', Str ''TECHNOLOGY''),
                      (''Industry'', Str ''ELECTRONIC COMPUTERS''),
                      (''Description'', Str (replicate 500 (CHR ''x'')))]))))
       (Str ''AAPL'') =
     (Inr (text_result
        (''Company: Apple Inc'' @ nl @ ''Sector: TECHNOLOGY'' @ nl @
         ''Industry: ELECTRONIC COMPUTERS'' @ nl @
         ''Description: '' @ replicate 300 (CHR ''x'') @ ''...'')),
      [''https://www.alphavantage.co/query?function=OVERVIEW&symbol=AAPL&apikey=demo''])
   \<and> length (replicate 300 (CHR ''x'') @ ''...'') = 303"
  using getCompanyOverview_truncates
      [of "Some ''demo''"
        "\<lambda>_. Resolved (Response True
          (Some (Obj [(''Name'', Str ''Apple Inc''), (''Sector'', Str ''TECHNOLOGY''),
                      (''Industry'', Str ''ELECTRONIC COMPUTERS''),
                      (''Description'', Str (replicate 500 (CHR ''x'')))])))"
        "Str ''AAPL''"
        "Obj [(''Name'', Str ''Apple Inc''), (''Sector'', Str ''TECHNOLOGY''),
                      (''Industry'', Str ''ELECTRONIC COMPUTERS''),
                      (''Description'', Str (replicate 500 (CHR ''x'')))]"
        "replicate 500 (CHR ''x'')"]
  by (simp add: handler_eval)

text \<open>
  C5 as stated fails: a body with a \<^verbatim>\<open>Name\<close> and no \<^verbatim>\<open>Description\<close> gives no text result
  but a \<^verbatim>\<open>TypeError\<close>.
\<close>

theorem getCompanyOverview_description_absent_counterexample:
  "truthy (js_prop (Obj [(''Name'', Str ''International Business Machines''), (''Industry'', Str ''IT'')]) ''Name'')
   \<and> fst (getCompanyOverview (Some ''demo'')
       (\<lambda>_. Resolved (Response True
          (Some (Obj [(''Name'', Str ''International Business Machines''), (''Industry'', Str ''IT'')]))))
       (Str ''IBM'')) = Inl TypeError"
  by (simp add: getCompanyOverview_def getCompanyOverview_data_def handler_eval)

section \<open>Every tool result has content\<close>

lemma getStockPrice_data_text: "getStockPrice_data s d = Inr r \<Longrightarrow> \<exists>t. r = text_result t"
  by (auto simp: getStockPrice_data_def split: sum.splits if_splits)

lemma getStockNews_data_text: "getStockNews_data s d = Inr r \<Longrightarrow> \<exists>t. r = text_result t"
  by (auto simp: getStockNews_data_def split: sum.splits if_splits)

lemma getCompanyOverview_data_text: "getCompanyOverview_data s d = Inr r \<Longrightarrow> \<exists>t. r = text_result t"
  by (auto simp: getCompanyOverview_data_def split: sum.splits if_splits)

lemma getDividendHistory_data_text: "getDividendHistory_data s d = Inr r \<Longrightarrow> \<exists>t. r = text_result t"
  by (auto simp: getDividendHistory_data_def split: sum.splits if_splits)

lemma getIntraday_data_text: "getIntraday_data s d = Inr r \<Longrightarrow> \<exists>t. r = text_result t"
  by (auto simp: getIntraday_data_def split: sum.splits if_splits)

lemma convertCurrency_data_text: "convertCurrency_data a f t d = Inr r \<Longrightarrow> \<exists>t. r = text_result t"
  by (auto simp: convertCurrency_data_def Let_def split: sum.splits if_splits)

lemma calculatePortfolioValue_text:
  "fst (calculatePortfolioValue k n h) = Inr r \<Longrightarrow> \<exists>t. r = text_result t"
  by (auto simp: calculatePortfolioValue_def split: sum.splits if_splits jsval.splits prod.splits)

text \<open>
  C8. Whenever one of the seven handlers returns a tool result, its \<^verbatim>\<open>content\<close> has at
  least one element (it is the one text item the handler built).
\<close>

theorem tool_result_content_nonempty:
  "(fst (getStockPrice apiKey net symbol) = Inr r \<longrightarrow> 1 \<le> length (content r))
   \<and> (fst (getStockNews apiKey net symbol) = Inr r \<longrightarrow> 1 \<le> length (content r))
   \<and> (fst (getCompanyOverview apiKey net symbol) = Inr r \<longrightarrow> 1 \<le> length (content r))
   \<and> (fst (getDividendHistory apiKey net symbol) = Inr r \<longrightarrow> 1 \<le> length (content r))
   \<and> (fst (getIntraday apiKey net symbol) = Inr r \<longrightarrow> 1 \<le> length (content r))
   \<and> (fst (convertCurrency apiKey net amount from_currency to_currency) = Inr r
        \<longrightarrow> 1 \<le> length (content r))
   \<and> (fst (calculatePortfolioValue apiKey net holdings) = Inr r \<longrightarrow> 1 \<le> length (content r))"
proof (intro conjI impI)
  assume "fst (getStockPrice apiKey net symbol) = Inr r"
  then have "\<exists>d. getStockPrice_data symbol d = Inr r"
    by (auto simp: getStockPrice_def dest: then_format_Inr split: if_splits)
  then show "1 \<le> length (content r)"
    by (auto dest!: getStockPrice_data_text simp: content_text_result)
next
  assume "fst (getStockNews apiKey net symbol) = Inr r"
  then have "\<exists>d. getStockNews_data symbol d = Inr r"
    by (auto simp: getStockNews_def dest: then_format_Inr split: if_splits)
  then show "1 \<le> length (content r)"
    by (auto dest!: getStockNews_data_text simp: content_text_result)
next
  assume "fst (getCompanyOverview apiKey net symbol) = Inr r"
  then have "\<exists>d. getCompanyOverview_data symbol d = Inr r"
    by (auto simp: getCompanyOverview_def dest: then_format_Inr split: if_splits)
  then show "1 \<le> length (content r)"
    by (auto dest!: getCompanyOverview_data_text simp: content_text_result)
next
  assume "fst (getDividendHistory apiKey net symbol) = Inr r"
  then have "\<exists>d. getDividendHistory_data symbol d = Inr r"
    by (auto simp: getDividendHistory_def dest: then_format_Inr split: if_splits)
  then show "1 \<le> length (content r)"
    by (auto dest!: getDividendHistory_data_text simp: content_text_result)
next
  assume "fst (getIntraday apiKey net symbol) = Inr r"
  then have "\<exists>d. getIntraday_data symbol d = Inr r"
    by (auto simp: getIntraday_def dest: then_format_Inr split: if_splits)
  then show "1 \<le> length (content r)"
    by (auto dest!: getIntraday_data_text simp: content_text_result)
next
  assume "fst (convertCurrency apiKey net amount from_currency to_currency) = Inr r"
  then have "\<exists>d. convertCurrency_data amount from_currency to_currency d = Inr r"
    by (auto simp: convertCurrency_def dest: then_format_Inr split: if_splits)
  then show "1 \<le> length (content r)"
    by (auto dest!: convertCurrency_data_text simp: content_text_result)
next
  assume "fst (calculatePortfolioValue apiKey net holdings) = Inr r"
  then show "1 \<le> length (content r)"
    by (auto dest!: calculatePortfolioValue_text simp: content_text_result)
qed

theorem tool_result_content_nonempty_witness:
  "fst (getStockNews (Some ''demo'') (\<lambda>_. Resolved (Response True (Some (Obj [(''feed'', Arr [])]))))
       (Str ''AAPL'')) = Inr (text_result ''No recent news found for AAPL'')
   \<and> fst (calculatePortfolioValue (Some ''demo'') (\<lambda>_. Resolved (Response False None))
       (Arr [Obj [(''symbol'', Str ''BAD''), (''shares'', Num (Fin 5))]])) =
       Inr (text_result (''Portfolio Value:'' @ nl @ nl @ nl @ ''Total Estimated Value: $0.00''))
   \<and> 1 \<le> length (content (text_result ''No recent news found for AAPL''))
   \<and> 1 \<le> length (content (text_result
              (''Portfolio Value:'' @ nl @ nl @ nl @ ''Total Estimated Value: $0.00'')))"
proof -
  have a: "fst (getStockNews (Some ''demo'') (\<lambda>_. Resolved (Response True (Some (Obj [(''feed'', Arr [])]))))
       (Str ''AAPL'')) = Inr (text_result ''No recent news found for AAPL'')"
    by (simp add: getStockNews_def getStockNews_data_def handler_eval)
  have b: "fst (calculatePortfolioValue (Some ''demo'') (\<lambda>_. Resolved (Response False None))
       (Arr [Obj [(''symbol'', Str ''BAD''), (''shares'', Num (Fin 5))]])) =
       Inr (text_result (''Portfolio Value:'' @ nl @ nl @ nl @ ''Total Estimated Value: $0.00''))"
    by (simp add: calculatePortfolioValue_def portfolio_step_def portfolio_text_def fixed2_pos_zero
        handler_eval)
  show ?thesis
    using a b
      tool_result_content_nonempty
        [of "Some ''demo''" "\<lambda>_. Resolved (Response True (Some (Obj [(''feed'', Arr [])])))"
          "Str ''AAPL''" "text_result ''No recent news found for AAPL''"]
      tool_result_content_nonempty
        [of "Some ''demo''" "\<lambda>_. Resolved (Response False None)" _
          "text_result (''Portfolio Value:'' @ nl @ nl @ nl @ ''Total Estimated Value: $0.00'')"
          _ _ _ "Arr [Obj [(''symbol'', Str ''BAD''), (''shares'', Num (Fin 5))]]"]
    by simp
qed

section \<open>calculatePortfolioValue\<close>

subsection \<open>Numbers of the examples\<close>

lemma num_to_string_3: "num_to_string (Fin 3) = ''3''"
proof -
  have d: "digits_at 3 1 (Suc 0) = Some (3, 1)"
    by (simp add: digits_at_def double_eval)
  show ?thesis
    by (simp add: show_pos_def shortest_digits_def layout_digits_def d show_nat.simps digit_char_def
        floor_log_def ndigits.simps)
qed

lemma num_to_string_10: "num_to_string (Fin 10) = ''10''"
proof -
  have d: "digits_at 10 2 (Suc 0) = Some (1, 2)"
    by (simp add: digits_at_def double_eval)
  show ?thesis
    by (simp add: show_pos_def shortest_digits_def layout_digits_def d show_nat.simps digit_char_def
        floor_log_def ndigits.simps)
qed

lemma parseFloat_123_4: "parseFloat (Str ''123.4'') = Fin (4341751515761869 / 35184372088832)"
  by (simp add: parseFloat_def scan_eval radix_val.simps double_eval)

lemma parseFloat_150_25: "parseFloat (Str ''150.2500'') = Fin (601 / 4)"
  by (simp add: parseFloat_def scan_eval radix_val.simps double_eval)

lemma mul_123_4: "js_mul (Fin (4341751515761869 / 35184372088832)) (Fin 3) = Fin (1628156818410701 / 4398046511104)"
  by (simp add: double_eval)

lemma mul_150_25: "js_mul (Fin (601 / 4)) (Fin 10) = Fin (3005 / 2)"
  by (simp add: double_eval)

lemma add_0a: "js_add (Fin 0) (Fin (1628156818410701 / 4398046511104)) = Fin (1628156818410701 / 4398046511104)"
  by (simp add: double_eval)

lemma add_0b: "js_add (Fin 0) (Fin (3005 / 2)) = Fin (3005 / 2)"
  by (simp add: double_eval)

lemma fixed_a: "toFixed2 (Fin (4341751515761869 / 35184372088832)) = ''123.40''"
  by (simp add: fixed2_pos_def show_nat.simps digit_char_def)

lemma fixed_b: "toFixed2 (Fin (1628156818410701 / 4398046511104)) = ''370.20''"
  by (simp add: fixed2_pos_def show_nat.simps digit_char_def)

lemma fixed_c: "toFixed2 (Fin (601 / 4)) = ''150.25''"
  by (simp add: fixed2_pos_def show_nat.simps digit_char_def)

lemma fixed_d: "toFixed2 (Fin (3005 / 2)) = ''1502.50''"
  by (simp add: fixed2_pos_def show_nat.simps digit_char_def)

lemma round_370_4: "round_double (3704 / 10) = Fin (3258072855425843 / 8796093022208)"
  by (simp add: double_eval)

lemma da1: "digits_at (4341751515761869 / 35184372088832) 3 (Suc 0) = None"
  by (simp add: digits_at_def double_eval)
lemma da2: "digits_at (4341751515761869 / 35184372088832) 3 2 = None"
  by (simp add: digits_at_def double_eval)
lemma da3: "digits_at (4341751515761869 / 35184372088832) 3 3 = None"
  by (simp add: digits_at_def double_eval)
lemma da4: "digits_at (4341751515761869 / 35184372088832) 3 4 = Some (1234, 3)"
  by (simp add: digits_at_def double_eval)

lemma num_to_string_123_4: "num_to_string (Fin (4341751515761869 / 35184372088832)) = ''123.4''"
  by (simp add: show_pos_def shortest_digits_def layout_digits_def da1 da2 da3 da4 show_nat.simps
      digit_char_def floor_log_def ndigits.simps)

lemma digits_at_product:
    "digits_at (1628156818410701 / 4398046511104) 3 (Suc 0) = None"
    "digits_at (1628156818410701 / 4398046511104) 3 2 = None"
    "digits_at (1628156818410701 / 4398046511104) 3 3 = None"
    "digits_at (1628156818410701 / 4398046511104) 3 4 = None"
    "digits_at (1628156818410701 / 4398046511104) 3 5 = None"
    "digits_at (1628156818410701 / 4398046511104) 3 6 = None"
    "digits_at (1628156818410701 / 4398046511104) 3 7 = None"
    "digits_at (1628156818410701 / 4398046511104) 3 8 = None"
    "digits_at (1628156818410701 / 4398046511104) 3 9 = None"
    "digits_at (1628156818410701 / 4398046511104) 3 10 = None"
    "digits_at (1628156818410701 / 4398046511104) 3 11 = None"
    "digits_at (1628156818410701 / 4398046511104) 3 12 = None"
    "digits_at (1628156818410701 / 4398046511104) 3 13 = None"
    "digits_at (1628156818410701 / 4398046511104) 3 14 = None"
    "digits_at (1628156818410701 / 4398046511104) 3 15 = None"
    "digits_at (1628156818410701 / 4398046511104) 3 16 = None"
    "digits_at (1628156818410701 / 4398046511104) 3 17 = Some (37020000000000005, 3)"
  by (simp_all add: digits_at_def double_eval)

lemma num_to_string_product:
  "num_to_string (Fin (1628156818410701 / 4398046511104)) = ''370.20000000000005''"
  by (simp add: show_pos_def shortest_digits_def layout_digits_def digits_at_product show_nat.simps
      digit_char_def floor_log_def ndigits.simps)

lemma parseFloat_number_123_4:
  "parseFloat (Num (Fin (4341751515761869 / 35184372088832))) = Fin (4341751515761869 / 35184372088832)"
  using num_to_string_123_4
  by (simp add: parseFloat_def scan_eval radix_val.simps double_eval del: num_to_string.simps)

lemma upper_AAPL: "map upper_char ''aapl'' = ''AAPL'' \<and> map upper_char ''AAPL'' = ''AAPL''"
  by (simp add: upper_char_def)

subsection \<open>The loop\<close>

lemma holding_value_123_4:
  "holding_value (Str ''AAPL'') (Num (Fin 3)) (quote_body (Str ''123.4'')) =
     Inr (Some (''3 shares of AAPL at $123.40 = $370.20'', Fin (1628156818410701 / 4398046511104)))"
  unfolding holding_value_def quote_body_def
  by (simp add: get_prop_def nullish_def parseFloat_123_4 mul_123_4 upper_AAPL num_to_string_3
       del: toFixed2.simps js_mul.simps num_to_string.simps) (simp add: fixed_a fixed_b upper_char_def del: toFixed2.simps)

lemma holding_value_number_123_4:
  "holding_value (Str ''AAPL'') (Num (Fin 3)) (quote_body (Num (Fin (4341751515761869 / 35184372088832)))) =
     Inr (Some (''3 shares of AAPL at $123.40 = $370.20'', Fin (1628156818410701 / 4398046511104)))"
  unfolding holding_value_def quote_body_def
  by (simp add: get_prop_def nullish_def parseFloat_number_123_4 mul_123_4 upper_AAPL num_to_string_3
       del: toFixed2.simps js_mul.simps num_to_string.simps) (simp add: fixed_a fixed_b upper_char_def del: toFixed2.simps)

lemma holding_value_150_25:
  "holding_value (Str ''AAPL'') (Num (Fin 10)) (quote_body (Str ''150.2500'')) =
     Inr (Some (''10 shares of AAPL at $150.25 = $1502.50'', Fin (3005 / 2)))"
  unfolding holding_value_def quote_body_def
  by (simp add: get_prop_def nullish_def parseFloat_150_25 mul_150_25 upper_AAPL num_to_string_10
       del: toFixed2.simps js_mul.simps num_to_string.simps) (simp add: fixed_c fixed_d upper_char_def del: toFixed2.simps)

lemma holding_value_value:
  "holding_value symbol shares data = Inr (Some (line, val)) \<Longrightarrow>
   val = js_mul (parseFloat (js_prop (js_prop data ''Global Quote'') ''05. price'')) (to_number shares)
   \<and> (\<exists>pre. line = pre @ '' = $'' @ toFixed2 val)"
  by (auto simp: holding_value_def get_prop_def Let_def split: if_splits sum.splits)

lemma holding_value_no_quote:
  "holding_value symbol shares (Obj [(''Global Quote'', Obj [])]) = Inr None"
  by (simp add: holding_value_def get_prop_def nullish_def)

lemma url_AAPL_BAD:
  "quote_url (Str ''BAD'') ''demo'' \<noteq> quote_url (Str ''AAPL'') ''demo''"
  by (simp add: quote_url_def)




lemma step_entry:
  "portfolio_step key net h st = Inr st' \<Longrightarrow>
   requests st' = snd (holding_entry key net (requests st) h)
   \<and> (case fst (holding_entry key net (requests st) h) of
        None \<Rightarrow> totalValue st' = totalValue st \<and> details st' = details st
      | Some (l, v) \<Rightarrow>
          totalValue st' = js_add (totalValue st) v \<and> details st' = details st @ [l])"
  unfolding portfolio_step_def holding_entry_def asked_def Let_def truthy_falsy
  by (auto split: if_splits fetch_outcome.splits response.splits option.splits sum.splits
      prod.splits bool.splits)

lemma loop_counted:
  "portfolio_loop key net hs st = Inr st' \<Longrightarrow>
   details st' = details st @ map fst (counted key net (requests st) hs)
   \<and> totalValue st' = foldl js_add (totalValue st) (map snd (counted key net (requests st) hs))"
proof (induction hs arbitrary: st)
  case Nil
  then show ?case by simp
next
  case (Cons h hs)
  from Cons.prems obtain st1 where s: "portfolio_step key net h st = Inr st1"
    and l: "portfolio_loop key net hs st1 = Inr st'"
    by (auto split: sum.splits)
  from step_entry [OF s] Cons.IH [OF l] show ?case
    by (cases "holding_entry key net (requests st) h") (auto split: option.splits)
qed

lemma step_returns:
  assumes "answering net" and "plain_holding h"
  shows "\<exists>st'. portfolio_step key net h st = Inr st'"
proof (cases "asked h")
  case False
  with assms(2) show ?thesis
    by (auto simp: portfolio_step_def asked_def plain_holding_def truthy_falsy)
next
  case True
  with assms(2) obtain s where sym: "js_prop h ''symbol'' = Str s" and nn: "\<not> nullish h"
    by (auto simp: asked_def plain_holding_def)
  from assms(1) obtain res where r: "net (requests st @ [quote_url (Str s) key]) = Resolved res"
    and d: "ok res \<longrightarrow> (\<exists>data. json res = Some data \<and> \<not> nullish data)"
    unfolding answering_def by blast
  show ?thesis
  proof (cases "ok res")
    case False
    with True sym nn r show ?thesis
      by (simp add: portfolio_step_def asked_def truthy_falsy)
  next
    case ok: True
    with d obtain data where j: "json res = Some data" and dn: "\<not> nullish data" by blast
    have "\<exists>x. holding_value (Str s) (js_prop h ''shares'') data = Inr x"
      using dn by (simp add: holding_value_def get_prop_def Let_def)
    then obtain x where hv: "holding_value (Str s) (js_prop h ''shares'') data = Inr x" ..
    with True sym nn r ok j show ?thesis
      by (cases x) (auto simp: portfolio_step_def asked_def truthy_falsy)
  qed
qed

lemma loop_returns:
  "answering net \<Longrightarrow> \<forall>h \<in> set hs. plain_holding h \<Longrightarrow>
   \<exists>st'. portfolio_loop key net hs st = Inr st'"
proof (induction hs arbitrary: st)
  case Nil
  then show ?case by simp
next
  case (Cons h hs)
  then obtain st1 where "portfolio_step key net h st = Inr st1"
    using step_returns [of net h key st] by auto
  with Cons show ?case by simp
qed

lemma calc_counted:
  "calculatePortfolioValue apiKey net holdings = (Inr r, reqs) \<Longrightarrow>
   \<exists>hs. holdings = Arr hs \<and> hs \<noteq> []
     \<and> r = text_result (portfolio_report (counted (key_text apiKey) net [] hs))"
proof -
  assume a: "calculatePortfolioValue apiKey net holdings = (Inr r, reqs)"
  then obtain hs st where h: "holdings = Arr hs" "hs \<noteq> []"
    and l: "portfolio_loop (key_text apiKey) net hs
              \<lparr>totalValue = Fin 0, details = [], requests = []\<rparr> = Inr st"
    and r: "r = text_result (portfolio_text st)"
    by (auto simp: calculatePortfolioValue_def split: if_splits jsval.splits sum.splits prod.splits)
  from loop_counted [OF l] have "portfolio_text st =
      portfolio_report (counted (key_text apiKey) net [] hs)"
    by (simp add: portfolio_text_def portfolio_report_def del: toFixed2.simps)
  with h r show ?thesis by simp
qed

lemma calc_returns:
  assumes "\<not> key_missing apiKey" and "hs \<noteq> []" and "answering net"
    and "\<forall>h \<in> set hs. plain_holding h"
  shows "fst (calculatePortfolioValue apiKey net (Arr hs)) =
           Inr (text_result (portfolio_report (counted (key_text apiKey) net [] hs)))"
proof -
  from loop_returns [OF assms(3,4)] obtain st where
    "portfolio_loop (key_text apiKey) net hs
        \<lparr>totalValue = Fin 0, details = [], requests = []\<rparr> = Inr st"
    by blast
  with assms(1,2) have "calculatePortfolioValue apiKey net (Arr hs) =
      (Inr (text_result (portfolio_text st)), requests st)"
    by (simp add: calculatePortfolioValue_def)
  with calc_counted [of apiKey net "Arr hs" "text_result (portfolio_text st)" "requests st"]
  show ?thesis by simp
qed





lemma entry_value:
  "holding_entry key net reqs h = (Some (line, val), reqs') \<Longrightarrow>
   \<exists>data. net (reqs @ [quote_url (js_prop h ''symbol'') key]) = Resolved (Response True (Some data))
     \<and> val = js_mul (parseFloat (js_prop (js_prop data ''Global Quote'') ''05. price''))
               (to_number (js_prop h ''shares''))
     \<and> (\<exists>pre. line = pre @ '' = $'' @ toFixed2 val)"
  by (auto simp: holding_entry_def split: if_splits fetch_outcome.splits response.splits
      option.splits sum.splits bool.splits dest!: holding_value_value)

subsection \<open>The examples\<close>

lemma plain_holding_sample: "plain_holding (holding s x)"
  by (simp add: plain_holding_def holding_def nullish_def)


lemma answering_penny: "answering penny_network"
  by (simp add: answering_def penny_network_def quote_body_def nullish_def)

lemma counted_sample:
  "counted ''demo'' sample_network [] [holding ''AAPL'' 10, holding ''BAD'' 5] =
     [(''10 shares of AAPL at $150.25 = $1502.50'', Fin (3005 / 2))]"
  by (simp add: holding_entry_def asked_def holding_def sample_network_def url_AAPL_BAD
      holding_value_150_25 holding_value_no_quote)


lemma report_sample:
  "portfolio_report [(''10 shares of AAPL at $150.25 = $1502.50'', Fin (3005 / 2))] =
     ''Portfolio Value:'' @ nl @ ''10 shares of AAPL at $150.25 = $1502.50'' @ nl @ nl @
     ''Total Estimated Value: $1502.50''"
  by (simp add: portfolio_report_def add_0b fixed_d del: js_add.simps toFixed2.simps)



lemma num_to_string_1: "num_to_string (Fin 1) = ''1''"
proof -
  have d: "digits_at 1 1 (Suc 0) = Some (1, 1)"
    by (simp add: digits_at_def double_eval)
  show ?thesis
    by (simp add: show_pos_def shortest_digits_def layout_digits_def d show_nat.simps digit_char_def
        floor_log_def ndigits.simps)
qed

lemma parseFloat_0_004:
  "parseFloat (Str ''0.004'') = Fin (1152921504606847 / 288230376151711744)"
  by (simp add: parseFloat_def scan_eval radix_val.simps double_eval)

lemma mul_0_004: "js_mul (Fin (1152921504606847 / 288230376151711744)) (Fin 1) =
    Fin (1152921504606847 / 288230376151711744)"
  by (simp add: double_eval)

lemma add_0_004:
  "js_add (Fin 0) (Fin (1152921504606847 / 288230376151711744)) =
     Fin (1152921504606847 / 288230376151711744)"
  "js_add (Fin (1152921504606847 / 288230376151711744)) (Fin (1152921504606847 / 288230376151711744)) =
     Fin (1152921504606847 / 144115188075855872)"
  by (simp_all add: double_eval)

lemma fixed_0_004:
  "toFixed2 (Fin (1152921504606847 / 288230376151711744)) = ''0.00''"
  "toFixed2 (Fin (1152921504606847 / 144115188075855872)) = ''0.01''"
  by (simp_all add: fixed2_pos_def show_nat.simps digit_char_def)

lemma holding_value_penny:
  "holding_value (Str [c]) (Num (Fin 1)) (quote_body (Str ''0.004'')) =
     Inr (Some (''1 shares of '' @ [upper_char c] @ '' at $0.00 = $0.00'',
                Fin (1152921504606847 / 288230376151711744)))"
  unfolding holding_value_def quote_body_def
  by (simp add: get_prop_def nullish_def parseFloat_0_004 mul_0_004 num_to_string_1
       del: toFixed2.simps js_mul.simps num_to_string.simps) (simp add: fixed_0_004 del: toFixed2.simps)

lemma counted_penny:
  "counted ''demo'' penny_network [] [holding ''A'' 1, holding ''B'' 1] =
     [(''1 shares of A at $0.00 = $0.00'', Fin (1152921504606847 / 288230376151711744)),
      (''1 shares of B at $0.00 = $0.00'', Fin (1152921504606847 / 288230376151711744))]"
  by (simp add: holding_entry_def asked_def holding_def penny_network_def holding_value_penny
      upper_char_def)

lemma report_penny:
  "portfolio_report
     [(''1 shares of A at $0.00 = $0.00'', Fin (1152921504606847 / 288230376151711744)),
      (''1 shares of B at $0.00 = $0.00'', Fin (1152921504606847 / 288230376151711744))] =
   ''Portfolio Value:'' @ nl @ ''1 shares of A at $0.00 = $0.00'' @ nl @
   ''1 shares of B at $0.00 = $0.00'' @ nl @ nl @ ''Total Estimated Value: $0.01''"
  by (simp add: portfolio_report_def add_0_004 fixed_0_004 del: js_add.simps toFixed2.simps)




text \<open>
  C3, as the code has it. For the price 123.4 (as text or as a number) and 3 shares the
  detail line ends in 370.20, and the value added to the total is the double product of
  123.4 and 3, which prints as 370.20000000000005, not rounded to two decimals. In
  general the value of a contribution is the unrounded product of the parsed price and
  the shares, and the total shown is the sum of these values, in order, rounded once by
  \<^verbatim>\<open>toFixed(2)\<close>: two holdings of value 0.004 each show as 0.00 in their lines and give the
  total 0.01.
\<close>

theorem portfolio_rounds_only_for_display:
  "holding_value (Str ''AAPL'') (Num (Fin 3)) (quote_body (Str ''123.4'')) =
     Inr (Some (''3 shares of AAPL at $123.40 = $370.20'', Fin (1628156818410701 / 4398046511104)))
   \<and> holding_value (Str ''AAPL'') (Num (Fin 3)) (quote_body (Num (round_double (1234 / 10)))) =
     Inr (Some (''3 shares of AAPL at $123.40 = $370.20'', Fin (1628156818410701 / 4398046511104)))
   \<and> num_to_string (Fin (1628156818410701 / 4398046511104)) = ''370.20000000000005''
   \<and> (holding_entry key net rs h = (Some (line, val), rs') \<longrightarrow>
        (\<exists>data. net (rs @ [quote_url (js_prop h ''symbol'') key]) =
                  Resolved (Response True (Some data))
           \<and> val = js_mul (parseFloat (js_prop (js_prop data ''Global Quote'') ''05. price''))
                     (to_number (js_prop h ''shares''))
           \<and> (\<exists>pre. line = pre @ '' = $'' @ toFixed2 val)))
   \<and> counted key net rs (h # rest) =
        (case fst (holding_entry key net rs h) of None \<Rightarrow> [] | Some entry \<Rightarrow> [entry]) @
        counted key net (snd (holding_entry key net rs h)) rest
   \<and> (calculatePortfolioValue apiKey net holdings = (Inr r, reqs) \<longrightarrow>
        (\<exists>hs. holdings = Arr hs \<and> hs \<noteq> []
           \<and> r = text_result
                 (''Portfolio Value:'' @ nl @
                  join nl (map fst (counted (key_text apiKey) net [] hs)) @ nl @ nl @
                  ''Total Estimated Value: $'' @
                  toFixed2 (foldl js_add (Fin 0) (map snd (counted (key_text apiKey) net [] hs))))))
   \<and> (\<not> key_missing apiKey \<and> hs \<noteq> [] \<and> answering net \<and> (\<forall>h \<in> set hs. plain_holding h) \<longrightarrow>
        fst (calculatePortfolioValue apiKey net (Arr hs)) =
          Inr (text_result
                 (''Portfolio Value:'' @ nl @
                  join nl (map fst (counted (key_text apiKey) net [] hs)) @ nl @ nl @
                  ''Total Estimated Value: $'' @
                  toFixed2 (foldl js_add (Fin 0) (map snd (counted (key_text apiKey) net [] hs))))))
   \<and> counted ''demo'' penny_network [] [holding ''A'' 1, holding ''B'' 1] =
        [(''1 shares of A at $0.00 = $0.00'', Fin (1152921504606847 / 288230376151711744)),
         (''1 shares of B at $0.00 = $0.00'', Fin (1152921504606847 / 288230376151711744))]
   \<and> fst (calculatePortfolioValue (Some ''demo'') penny_network
            (Arr [holding ''A'' 1, holding ''B'' 1])) =
        Inr (text_result
          (''Portfolio Value:'' @ nl @ ''1 shares of A at $0.00 = $0.00'' @ nl @
           ''1 shares of B at $0.00 = $0.00'' @ nl @ nl @ ''Total Estimated Value: $0.01''))"
proof -
  have r: "round_double (1234 / 10) = Fin (4341751515761869 / 35184372088832)"
    by (simp add: double_eval)
  have 2: "holding_value (Str ''AAPL'') (Num (Fin 3)) (quote_body (Num (round_double (1234 / 10)))) =
     Inr (Some (''3 shares of AAPL at $123.40 = $370.20'', Fin (1628156818410701 / 4398046511104)))"
    by (simp only: r holding_value_number_123_4)
  note 4 = entry_value [of key net rs h line val rs']
  have 5: "counted key net rs (h # rest) =
        (case fst (holding_entry key net rs h) of None \<Rightarrow> [] | Some entry \<Rightarrow> [entry]) @
        counted key net (snd (holding_entry key net rs h)) rest"
    by (cases "holding_entry key net rs h") (auto split: option.splits)
  have 6: "calculatePortfolioValue apiKey net holdings = (Inr r, reqs) \<longrightarrow>
        (\<exists>hs. holdings = Arr hs \<and> hs \<noteq> []
           \<and> r = text_result
                 (''Portfolio Value:'' @ nl @
                  join nl (map fst (counted (key_text apiKey) net [] hs)) @ nl @ nl @
                  ''Total Estimated Value: $'' @
                  toFixed2 (foldl js_add (Fin 0) (map snd (counted (key_text apiKey) net [] hs)))))"
    using calc_counted [of apiKey net holdings r reqs] unfolding portfolio_report_def
    by (intro impI)
  have 7: "\<not> key_missing apiKey \<and> hs \<noteq> [] \<and> answering net \<and> (\<forall>h \<in> set hs. plain_holding h) \<longrightarrow>
        fst (calculatePortfolioValue apiKey net (Arr hs)) =
          Inr (text_result
                 (''Portfolio Value:'' @ nl @
                  join nl (map fst (counted (key_text apiKey) net [] hs)) @ nl @ nl @
                  ''Total Estimated Value: $'' @
                  toFixed2 (foldl js_add (Fin 0) (map snd (counted (key_text apiKey) net [] hs)))))"
    using calc_returns [of apiKey hs net] unfolding portfolio_report_def by blast
  have 9: "fst (calculatePortfolioValue (Some ''demo'') penny_network
            (Arr [holding ''A'' 1, holding ''B'' 1])) =
        Inr (text_result
          (''Portfolio Value:'' @ nl @ ''1 shares of A at $0.00 = $0.00'' @ nl @
           ''1 shares of B at $0.00 = $0.00'' @ nl @ nl @ ''Total Estimated Value: $0.01''))"
    using calc_returns [of "Some ''demo''" "[holding ''A'' 1, holding ''B'' 1]" penny_network]
      answering_penny plain_holding_sample
    by (simp add: key_missing_def key_text_def counted_penny report_penny del: counted.simps)
  from holding_value_123_4 2 num_to_string_product 4 5 6 7 counted_penny 9 show ?thesis
    by blast
qed

theorem portfolio_rounds_only_for_display_witness:
  "(\<exists>data. penny_network ([] @ [quote_url (js_prop (holding ''A'' 1) ''symbol'') ''demo'']) =
              Resolved (Response True (Some data))
       \<and> Fin (1152921504606847 / 288230376151711744) =
           js_mul (parseFloat (js_prop (js_prop data ''Global Quote'') ''05. price''))
             (to_number (js_prop (holding ''A'' 1) ''shares''))
       \<and> (\<exists>pre. ''1 shares of A at $0.00 = $0.00'' =
                  pre @ '' = $'' @ toFixed2 (Fin (1152921504606847 / 288230376151711744))))
   \<and> fst (calculatePortfolioValue (Some ''demo'') penny_network
            (Arr [holding ''A'' 1, holding ''B'' 1])) =
       Inr (text_result
              (''Portfolio Value:'' @ nl @
               join nl (map fst (counted (key_text (Some ''demo'')) penny_network []
                                   [holding ''A'' 1, holding ''B'' 1])) @ nl @ nl @
               ''Total Estimated Value: $'' @
               toFixed2 (foldl js_add (Fin 0)
                  (map snd (counted (key_text (Some ''demo'')) penny_network []
                              [holding ''A'' 1, holding ''B'' 1])))))"
proof -
  note t = portfolio_rounds_only_for_display
      [where key = "''demo''" and net = penny_network and rs = "[]" and h = "holding ''A'' 1"
        and line = "''1 shares of A at $0.00 = $0.00''"
        and val = "Fin (1152921504606847 / 288230376151711744)"
        and rs' = "[quote_url (Str ''A'') ''demo'']"
        and apiKey = "Some ''demo''" and hs = "[holding ''A'' 1, holding ''B'' 1]"]
  have e: "holding_entry ''demo'' penny_network [] (holding ''A'' 1) =
      (Some (''1 shares of A at $0.00 = $0.00'', Fin (1152921504606847 / 288230376151711744)),
       [quote_url (Str ''A'') ''demo''])"
    by (simp add: holding_entry_def asked_def holding_def penny_network_def holding_value_penny
        upper_char_def)
  have a: "\<not> key_missing (Some ''demo'')" "[holding ''A'' 1, holding ''B'' 1] \<noteq> []"
    "\<forall>h \<in> set [holding ''A'' 1, holding ''B'' 1]. plain_holding h"
    by (simp_all add: key_missing_def plain_holding_sample)
  from t e a answering_penny show ?thesis by blast
qed

text \<open>
  C3 as stated fails: the value added for the price 123.4 and 3 shares is not 370.4 (it
  is below 370.3).
\<close>

theorem portfolio_value_370_4_counterexample:
  "holding_value (Str ''AAPL'') (Num (Fin 3)) (quote_body (Str ''123.4'')) =
     Inr (Some (''3 shares of AAPL at $123.40 = $370.20'', Fin (1628156818410701 / 4398046511104)))
   \<and> Fin (1628156818410701 / 4398046511104) \<noteq> round_double (3704 / 10)
   \<and> (1628156818410701 / 4398046511104 :: real) < 3703 / 10"
  using holding_value_123_4 round_370_4 by simp

end
